theory Spec2Isabelle
  imports Complex_Main "HOL-Library.AList"
begin

section \<open>JSON values as JavaScript sees them\<close>

text \<open>
  A parsed JSON value. An object is the list of its own properties in insertion order
  (each key once, as \<^verbatim>\<open>JSON.parse\<close> builds it). JSON numbers are modelled as integers:
  the code only compares them and tests their truthiness. A property that is absent reads
  as \<^verbatim>\<open>undefined\<close>, modelled by \<open>None\<close>.
\<close>

datatype json =
    JNull
  | JBool bool
  | JNum int
  | JStr string
  | JArr "json list"
  | JObj "(string \<times> json) list"

text \<open>JavaScript truthiness of a JSON value, and of a possibly undefined one.\<close>

fun truthy :: "json \<Rightarrow> bool" where
  "truthy JNull = False"
| "truthy (JBool b) = b"
| "truthy (JNum n) = (n \<noteq> 0)"
| "truthy (JStr s) = (s \<noteq> [])"
| "truthy (JArr xs) = True"
| "truthy (JObj kvs) = True"

definition truthy_opt :: "json option \<Rightarrow> bool" where
  "truthy_opt v = (case v of None \<Rightarrow> False | Some j \<Rightarrow> truthy j)"

text \<open>
  Property read \<^verbatim>\<open>v?.k\<close>: an object yields its property; every other value yields
  undefined (for the keys read here: id, method, params). The plain read \<^verbatim>\<open>v.k\<close> differs
  on \<^verbatim>\<open>null\<close> only, where it throws; the functions below test for \<^verbatim>\<open>null\<close> first
  wherever the source reads without the question mark.
\<close>

fun js_prop :: "json \<Rightarrow> string \<Rightarrow> json option" where
  "js_prop (JObj kvs) k = map_of kvs k"
| "js_prop v k = None"

section \<open>Cancellation token\<close>

text \<open>
  Modelled from the spec: \<^verbatim>\<open>createCancellationToken\<close> and the token's methods live in
  utils/cancellation, which is not among the sources. The spec (4.1) gives the state machine
  Active -> Canceled: \<^verbatim>\<open>cancel()\<close> is an idempotent transition that notifies all listeners
  and does nothing on a canceled token; \<^verbatim>\<open>isCanceled()\<close> is a pure query;
  \<^verbatim>\<open>onCancel(listener)\<close> registers a callback run at cancellation time, or immediately
  when the token is already canceled. Listeners are named by numbers and \<open>invoked\<close> logs
  the listeners that have been run, in order.
\<close>

record cancellation_token =
  canceled :: bool
  listeners :: "nat list"
  invoked :: "nat list"

definition createCancellationToken :: cancellation_token where
  "createCancellationToken = \<lparr>canceled = False, listeners = [], invoked = []\<rparr>"

definition token_cancel :: "cancellation_token \<Rightarrow> cancellation_token" where
  "token_cancel t =
     (if canceled t then t
      else t\<lparr>canceled := True, invoked := invoked t @ listeners t\<rparr>)"

definition token_isCanceled :: "cancellation_token \<Rightarrow> bool" where
  "token_isCanceled t = canceled t"

definition token_onCancel :: "nat \<Rightarrow> cancellation_token \<Rightarrow> cancellation_token" where
  "token_onCancel l t =
     (if canceled t then t\<lparr>invoked := invoked t @ [l]\<rparr>
      else t\<lparr>listeners := listeners t @ [l]\<rparr>)"

section \<open>Request contexts and the context registry (core/context.ts)\<close>

text \<open>
  \<^verbatim>\<open>RequestContext\<close> (types/context.ts). The token is an object shared by reference between
  the registry and the tool handler, so a context holds the address of its token in a token
  store.
\<close>

record request_context =
  sessionId :: "string option"
  cancellationToken :: nat
  requestId :: "json option"
  timestamp :: int
  replicateToken :: "string option"

text \<open>
  \<^verbatim>\<open>ContextRegistry\<close>: \<open>contexts\<close> is the JavaScript \<^verbatim>\<open>Map\<close>, an insertion-ordered list of
  entries; \<open>tokens\<close> is the store of token objects and \<open>next_token\<close> the next free address.
  The map compares keys by value; JSON-RPC ids are strings and numbers.
\<close>

record registry =
  contexts :: "(json \<times> request_context) list"
  tokens :: "nat \<Rightarrow> cancellation_token"
  next_token :: nat

definition empty_registry :: registry where
  "empty_registry =
     \<lparr>contexts = [], tokens = (\<lambda>a. createCancellationToken), next_token = 0\<rparr>"

text \<open>The optional \<^verbatim>\<open>data\<close> argument of \<^verbatim>\<open>create\<close>.\<close>

record context_data =
  data_replicateToken :: "string option"

text \<open>
  \<^verbatim>\<open>create(requestId, sessionId?, data?)\<close>; \<open>now\<close> is the value of \<^verbatim>\<open>Date.now()\<close>.
  \<^verbatim>\<open>Map.set\<close> overwrites the entry of a key already present (keeping its place) and
  appends otherwise, as \<open>AList.update\<close> does.
\<close>

definition ContextRegistry_create ::
  "json \<Rightarrow> string option \<Rightarrow> context_data option \<Rightarrow> int \<Rightarrow> registry
     \<Rightarrow> request_context \<times> registry" where
  "ContextRegistry_create rid sid data now reg =
     (let ctx = \<lparr>sessionId = sid,
                 cancellationToken = next_token reg,
                 requestId = Some rid,
                 timestamp = now,
                 replicateToken = (case data of None \<Rightarrow> None | Some d \<Rightarrow> data_replicateToken d)\<rparr>
      in (ctx, reg\<lparr>contexts := AList.update rid ctx (contexts reg),
                   tokens := (tokens reg)(next_token reg := createCancellationToken),
                   next_token := Suc (next_token reg)\<rparr>))"

definition ContextRegistry_get :: "json \<Rightarrow> registry \<Rightarrow> request_context option" where
  "ContextRegistry_get rid reg = map_of (contexts reg) rid"

definition ContextRegistry_getCancellationToken :: "json \<Rightarrow> registry \<Rightarrow> nat option" where
  "ContextRegistry_getCancellationToken rid reg =
     map_option cancellationToken (map_of (contexts reg) rid)"

definition ContextRegistry_cancel :: "json \<Rightarrow> registry \<Rightarrow> bool \<times> registry" where
  "ContextRegistry_cancel rid reg =
     (case map_of (contexts reg) rid of
        None \<Rightarrow> (False, reg)
      | Some ctx \<Rightarrow>
          (True, reg\<lparr>tokens := (tokens reg)
                    (cancellationToken ctx := token_cancel (tokens reg (cancellationToken ctx)))\<rparr>))"

definition ContextRegistry_delete :: "json \<Rightarrow> registry \<Rightarrow> registry" where
  "ContextRegistry_delete rid reg = reg\<lparr>contexts := AList.delete rid (contexts reg)\<rparr>"

definition maxAge :: int where
  "maxAge = 10 * 60 * 1000"

text \<open>
  \<^verbatim>\<open>cleanupExpired()\<close>: the loop over the map's entries, deleting the entry at hand when it
  is too old. Deleting the current entry does not disturb the iteration, so the loop runs
  over the entries as they were when it started.
\<close>

definition cleanup_step ::
  "int \<Rightarrow> json \<times> request_context \<Rightarrow> (json \<times> request_context) list
     \<Rightarrow> (json \<times> request_context) list" where
  "cleanup_step now e cs =
     (if now - timestamp (snd e) > maxAge then AList.delete (fst e) cs else cs)"

definition ContextRegistry_cleanupExpired :: "int \<Rightarrow> registry \<Rightarrow> registry" where
  "ContextRegistry_cleanupExpired now reg =
     reg\<lparr>contexts := fold (cleanup_step now) (contexts reg) (contexts reg)\<rparr>"

text \<open>The registry's map never holds a key twice.\<close>

definition registry_ok :: "registry \<Rightarrow> bool" where
  "registry_ok reg = distinct (map fst (contexts reg))"

section \<open>Strings, headers and the Bearer pattern\<close>

text \<open>
  Header values are byte strings (one \<open>char\<close> per Latin-1 code unit). The class
  \<^verbatim>\<open>\s\<close> of a JavaScript regular expression holds, among these, tab, line feed, vertical
  tab, form feed, carriage return, space and the no-break space; the dot of a pattern
  matches every character but the line terminators (line feed and carriage return here).
\<close>

definition is_js_space :: "char \<Rightarrow> bool" where
  "is_js_space c =
     (c \<in> {CHR 0x09, CHR 0x0A, CHR 0x0B, CHR 0x0C, CHR 0x0D, CHR 0x20, CHR 0xA0})"

definition is_line_terminator :: "char \<Rightarrow> bool" where
  "is_line_terminator c = (c \<in> {CHR 0x0A, CHR 0x0D})"

text \<open>\<^verbatim>\<open>String.prototype.trim\<close>.\<close>

definition js_trim :: "string \<Rightarrow> string" where
  "js_trim s = rev (dropWhile is_js_space (rev (dropWhile is_js_space s)))"

text \<open>The first alternative that succeeds, in the order a backtracking matcher tries them.\<close>

fun first_some :: "('a \<Rightarrow> 'b option) \<Rightarrow> 'a list \<Rightarrow> 'b option" where
  "first_some f [] = None"
| "first_some f (x # xs) = (case f x of Some y \<Rightarrow> Some y | None \<Rightarrow> first_some f xs)"

text \<open>
  The literal \<^verbatim>\<open>Bearer\<close> under the flag \<^verbatim>\<open>i\<close>: each letter in either case, at the start of
  the text.
\<close>

definition matches_Bearer :: "string \<Rightarrow> bool" where
  "matches_Bearer s =
     list_all2 (\<lambda>p c. c = fst p \<or> c = snd p) (zip ''BEARER'' ''bearer'') (take 6 s)"

text \<open>
  \<^verbatim>\<open>\s+(.+)$\<close> on the text after the literal: the greedy \<^verbatim>\<open>\s+\<close> first takes the whole run
  of spaces, then gives characters back one at a time (never fewer than one) until the rest
  is a non-empty text without line terminators, which is the group.
\<close>

definition bearer_rest :: "string \<Rightarrow> string option" where
  "bearer_rest s =
     first_some
       (\<lambda>j. let g = drop j s
            in if g \<noteq> [] \<and> list_all (\<lambda>c. \<not> is_line_terminator c) g then Some g else None)
       (rev [1..<Suc (length (takeWhile is_js_space s))])"

text \<open>
  \<^verbatim>\<open>header.match(/^\s*Bearer\s+(.+)$/i)?.[1]\<close>: the captured group, or \<open>None\<close> when the
  pattern does not match. The greedy \<^verbatim>\<open>\s*\<close> is tried from the longest run down to none.
\<close>

definition bearerMatch :: "string \<Rightarrow> string option" where
  "bearerMatch s =
     first_some
       (\<lambda>i. let s1 = drop i s
            in if matches_Bearer s1 then bearer_rest (drop 6 s1) else None)
       (rev [0..<Suc (length (takeWhile is_js_space s))])"

text \<open>\<^verbatim>\<open>authHeader?.match(...)?.[1]\<close> on a header that may be absent.\<close>

definition bearer_token :: "string option \<Rightarrow> string option" where
  "bearer_token h = (case h of None \<Rightarrow> None | Some v \<Rightarrow> bearerMatch v)"

section \<open>Configuration, requests, responses\<close>

text \<open>\<^verbatim>\<open>UnifiedConfig\<close> (shared/config/env.ts), the fields the handlers read.\<close>

record unified_config =
  MCP_TITLE :: string
  MCP_VERSION :: string
  API_KEY :: "string option"
  REPLICATE_API_TOKEN :: "string option"

text \<open>Truthiness of an optional string: undefined and the empty string are falsy.\<close>

definition truthy_str :: "string option \<Rightarrow> bool" where
  "truthy_str v = (case v of None \<Rightarrow> False | Some s \<Rightarrow> s \<noteq> [])"

text \<open>
  A request: its headers by lower-case name (header lookup ignores case) and the outcome
  of parsing its body as JSON (\<open>None\<close> when the body is not valid JSON).
\<close>

record http_request =
  headers :: "string \<Rightarrow> string option"
  json_body :: "json option"

record rpc_error =
  err_code :: int
  err_message :: string

text \<open>
  A JSON-RPC response object \<^verbatim>\<open>{jsonrpc: '2.0', error?, result?, id}\<close>; a member that is
  undefined is left out when the object is serialised.
\<close>

record jsonrpc_payload =
  p_error :: "rpc_error option"
  p_result :: "json option"
  p_id :: json

datatype 'r response_body =
    NoBody
  | JsonRpc jsonrpc_payload
  | PlainText string
  | Written 'r

record 'r http_response =
  resp_status :: nat
  resp_body :: "'r response_body"
  mcp_session_id :: "string option"

text \<open>
  Modelled from the spec: \<^verbatim>\<open>jsonResponse\<close> (shared/http/response) is not among the sources.
  It serialises the object as the body; the status is the one given, and 200 otherwise
  (spec, section 8: a domain error is answered with HTTP 200). \<^verbatim>\<open>withCors\<close> only adds
  headers and is left out.
\<close>

definition jsonResponse :: "jsonrpc_payload \<Rightarrow> nat option \<Rightarrow> 'r http_response" where
  "jsonResponse obj st =
     \<lparr>resp_status = (case st of None \<Rightarrow> 200 | Some n \<Rightarrow> n),
      resp_body = JsonRpc obj, mcp_session_id = None\<rparr>"

definition unauthorized_payload :: jsonrpc_payload where
  "unauthorized_payload =
     \<lparr>p_error = Some \<lparr>err_code = -32001, err_message = ''Unauthorized: Invalid or missing API key''\<rparr>,
      p_result = None, p_id = JNull\<rparr>"

section \<open>API-key check of the Workers handler (validateApiKey)\<close>

definition validateApiKey :: "http_request \<Rightarrow> unified_config \<Rightarrow> bool" where
  "validateApiKey request config =
     (if \<not> truthy_str (API_KEY config) then True
      else if bearer_token (headers request ''authorization'') = API_KEY config then True
      else if headers request ''x-api-key'' = API_KEY config then True
      else False)"

section \<open>Auth middleware of the Node server (http/middlewares/auth.ts)\<close>

record ReplicateAuthContext =
  authenticated :: bool
  auth_replicateToken :: "string option"

text \<open>
  \<^verbatim>\<open>replicateAuthMiddleware\<close>: the auth context it attaches to the request before calling
  \<^verbatim>\<open>next()\<close>.
\<close>

definition replicateAuthMiddleware ::
  "unified_config \<Rightarrow> (string \<Rightarrow> string option) \<Rightarrow> ReplicateAuthContext" where
  "replicateAuthMiddleware config hdrs =
     (let authContext = \<lparr>authenticated = False, auth_replicateToken = REPLICATE_API_TOKEN config\<rparr>
      in if \<not> truthy_str (API_KEY config) then authContext\<lparr>authenticated := True\<rparr>
         else
           (let a1 = (if bearer_token (hdrs ''authorization'') = API_KEY config
                      then authContext\<lparr>authenticated := True\<rparr> else authContext);
                a2 = (if hdrs ''x-api-key'' = API_KEY config
                      then a1\<lparr>authenticated := True\<rparr> else a1)
            in a2))"

text \<open>
  \<^verbatim>\<open>requireAuth\<close>: \<open>None\<close> when the request goes on to the route (\<^verbatim>\<open>next()\<close>), the
  response otherwise.
\<close>

definition requireAuth :: "ReplicateAuthContext option \<Rightarrow> 'r http_response option" where
  "requireAuth auth =
     (if \<not> (case auth of None \<Rightarrow> False | Some a \<Rightarrow> authenticated a)
      then Some \<lparr>resp_status = 401, resp_body = JsonRpc unauthorized_payload,
                  mcp_session_id = None\<rparr>
      else None)"

text \<open>The two middlewares in the order \<^verbatim>\<open>buildHttpApp\<close> installs them on \<^verbatim>\<open>/mcp\<close>.\<close>

definition mcp_auth_chain ::
  "unified_config \<Rightarrow> (string \<Rightarrow> string option) \<Rightarrow> 'r http_response option" where
  "mcp_auth_chain config hdrs = requireAuth (Some (replicateAuthMiddleware config hdrs))"

section \<open>MCP endpoint of the Workers runtime (adapters/http-workers/mcp.handler.ts)\<close>

datatype js_error = TypeError | Thrown string

text \<open>
  The operator \<^verbatim>\<open>k in v\<close>: a TypeError on a value that is not an object; on an array, whose
  own keys are indices and \<^verbatim>\<open>length\<close>, false for the names asked here.
\<close>

fun js_in :: "string \<Rightarrow> json \<Rightarrow> js_error + bool" where
  "js_in k (JObj kvs) = Inr (k \<in> fst ` set kvs)"
| "js_in k (JArr xs) = Inr False"
| "js_in k v = Inl TypeError"

text \<open>
  \<^verbatim>\<open>McpDispatchContext\<close>: the session id, the server-side token and the server's title and
  version. Its closures over the session-state map and the cancellation registry act on the
  dispatcher's own state, the component \<open>world\<close> below.
\<close>

record McpDispatchContext =
  dc_sessionId :: string
  dc_replicateToken :: "string option"
  dc_title :: string
  dc_version :: string

text \<open>What \<^verbatim>\<open>dispatchMcpMethod\<close> resolves to: \<^verbatim>\<open>{result?, error?}\<close>.\<close>

record dispatch_result =
  dr_result :: "json option"
  dr_error :: "rpc_error option"

text \<open>
  The module's state: the session ids that own a cancellation registry (the keys of
  \<^verbatim>\<open>cancellationRegistryMap\<close>, in insertion order) and the state the dispatcher works on.
\<close>

record 'w workers_state =
  cancellationRegistryMap :: "string list"
  world :: 'w

definition getCancellationRegistry :: "string \<Rightarrow> 'w workers_state \<Rightarrow> 'w workers_state" where
  "getCancellationRegistry sid st =
     (if sid \<in> set (cancellationRegistryMap st) then st
      else st\<lparr>cancellationRegistryMap := cancellationRegistryMap st @ [sid]\<rparr>)"

text \<open>
  \<^verbatim>\<open>handleMcpRequest\<close>. The dispatcher (shared/mcp/dispatcher) is not among the sources and
  is taken as two parameters: \<open>notify\<close> for \<^verbatim>\<open>handleMcpNotification\<close>, run for its effect
  on the dispatcher's state, and \<open>dispatch\<close> for \<^verbatim>\<open>dispatchMcpMethod\<close>; \<open>uuid\<close> is the
  value of \<^verbatim>\<open>crypto.randomUUID()\<close>.
\<close>

text \<open>The branch taken for a notification: the method, if truthy, is handed to \<open>notify\<close>.\<close>

definition notification_branch ::
  "(json \<Rightarrow> json option \<Rightarrow> McpDispatchContext \<Rightarrow> 'w \<Rightarrow> 'w)
   \<Rightarrow> json option \<Rightarrow> json option \<Rightarrow> McpDispatchContext \<Rightarrow> 'w workers_state
   \<Rightarrow> (js_error + 'r http_response) \<times> 'w workers_state" where
  "notification_branch notify meth params dispatchContext st =
     (Inr \<lparr>resp_status = 202, resp_body = NoBody, mcp_session_id = None\<rparr>,
      (case meth of
         None \<Rightarrow> st
       | Some m \<Rightarrow>
           if truthy m then st\<lparr>world := notify m params dispatchContext (world st)\<rparr> else st))"

text \<open>The branch taken for a request: dispatch, then the response object with the id.\<close>

definition request_branch ::
  "(json option \<Rightarrow> json option \<Rightarrow> McpDispatchContext \<Rightarrow> json \<Rightarrow> 'w \<Rightarrow> dispatch_result \<times> 'w)
   \<Rightarrow> json option \<Rightarrow> json option \<Rightarrow> McpDispatchContext \<Rightarrow> json \<Rightarrow> 'w workers_state
   \<Rightarrow> (js_error + 'r http_response) \<times> 'w workers_state" where
  "request_branch dispatch meth params dispatchContext i st =
     (let (res, w) = dispatch meth params dispatchContext i (world st)
      in (Inr ((jsonResponse
                  \<lparr>p_error = dr_error res,
                   p_result = (if dr_error res \<noteq> None then None else dr_result res),
                   p_id = i\<rparr> None)
                \<lparr>mcp_session_id := Some (dc_sessionId dispatchContext)\<rparr>),
          st\<lparr>world := w\<rparr>))"

text \<open>
  A body that is not valid JSON is replaced by the empty object. Destructuring the body
  throws on \<^verbatim>\<open>null\<close>; the test \<^verbatim>\<open>'id' in body\<close> throws on a number, string or boolean.
  The request is a notification when \<^verbatim>\<open>!('id' in body) || id === null || id === undefined\<close>.
\<close>

definition handleMcpRequest ::
  "(json \<Rightarrow> json option \<Rightarrow> McpDispatchContext \<Rightarrow> 'w \<Rightarrow> 'w)
   \<Rightarrow> (json option \<Rightarrow> json option \<Rightarrow> McpDispatchContext \<Rightarrow> json \<Rightarrow> 'w \<Rightarrow> dispatch_result \<times> 'w)
   \<Rightarrow> string \<Rightarrow> http_request \<Rightarrow> unified_config \<Rightarrow> 'w workers_state
   \<Rightarrow> (js_error + 'r http_response) \<times> 'w workers_state" where
  "handleMcpRequest notify dispatch uuid request config st =
     (if \<not> validateApiKey request config
      then (Inr (jsonResponse unauthorized_payload (Some 401)), st)
      else
        (let sid = (case headers request ''mcp-session-id'' of
                      None \<Rightarrow> uuid
                    | Some h \<Rightarrow> if js_trim h \<noteq> [] then js_trim h else uuid);
             parsed = (case json_body request of None \<Rightarrow> JObj [] | Some b \<Rightarrow> b)
         in if parsed = JNull then (Inl TypeError, st)
            else
              (let meth = js_prop parsed ''method'';
                   params = js_prop parsed ''params'';
                   rid = js_prop parsed ''id'';
                   dispatchContext =
                     \<lparr>dc_sessionId = sid,
                      dc_replicateToken = REPLICATE_API_TOKEN config,
                      dc_title = MCP_TITLE config,
                      dc_version = MCP_VERSION config\<rparr>;
                   st1 = getCancellationRegistry sid st
               in case js_in ''id'' parsed of
                    Inl e \<Rightarrow> (Inl e, st1)
                  | Inr has_id \<Rightarrow>
                      (case rid of
                         None \<Rightarrow> notification_branch notify meth params dispatchContext st1
                       | Some i \<Rightarrow>
                           if \<not> has_id \<or> i = JNull
                           then notification_branch notify meth params dispatchContext st1
                           else request_branch dispatch meth params dispatchContext i st1))))"

section \<open>MCP routes of the Node server (http/routes/mcp.ts)\<close>

text \<open>
  The state the routes work on. Transports are objects, named here by numbers:
  \<open>transports\<close> is the map from session ids to transports, \<open>connectedTransports\<close> the
  set of transports already connected, \<open>transport_sid\<close> the session id a created
  transport was told to generate (if any), \<open>next_transport\<close> the next unused name.
  \<open>connect_calls\<close> records every call of \<^verbatim>\<open>server.connect\<close>, with whether it resolved.
  \<open>contextRegistry\<close> is the process-wide registry and \<open>sdk\<close> the state of the MCP server
  library.
\<close>

record 'w node_state =
  transports :: "(string \<times> nat) list"
  connectedTransports :: "nat set"
  transport_sid :: "nat \<Rightarrow> string option"
  next_transport :: nat
  connect_calls :: "(nat \<times> bool) list"
  contextRegistry :: registry
  sdk :: 'w

text \<open>
  \<^verbatim>\<open>ensureConnected\<close>; \<open>connect\<close> is \<^verbatim>\<open>server.connect\<close>, which resolves or throws.
\<close>

definition ensureConnected ::
  "(nat \<Rightarrow> 'w \<Rightarrow> (js_error + unit) \<times> 'w) \<Rightarrow> nat \<Rightarrow> 'w node_state
   \<Rightarrow> (js_error + unit) \<times> 'w node_state" where
  "ensureConnected connect t st =
     (if t \<notin> connectedTransports st
      then
        (let (r, w) = connect t (sdk st);
             st1 = st\<lparr>sdk := w, connect_calls := connect_calls st @ [(t, \<not> isl r)]\<rparr>
         in case r of
              Inl e \<Rightarrow> (Inl e, st1)
            | Inr u \<Rightarrow> (Inr (), st1\<lparr>connectedTransports := insert t (connectedTransports st1)\<rparr>))
      else (Inr (), st))"

text \<open>\<^verbatim>\<open>typeof v === 'object'\<close> on a JSON value (true of \<^verbatim>\<open>null\<close> as well).\<close>

fun typeof_object :: "json \<Rightarrow> bool" where
  "typeof_object JNull = True"
| "typeof_object (JArr xs) = True"
| "typeof_object (JObj kvs) = True"
| "typeof_object v = False"

text \<open>
  The step of the POST route that creates the request context:
  \<^verbatim>\<open>if (body && typeof body === 'object' && 'id' in body && body.id) contextRegistry.create(...)\<close>.
\<close>

definition post_create_context ::
  "json option \<Rightarrow> string option \<Rightarrow> ReplicateAuthContext option \<Rightarrow> int \<Rightarrow> registry \<Rightarrow> registry" where
  "post_create_context body plannedSid replicateAuth now reg =
     (case body of
        None \<Rightarrow> reg
      | Some b \<Rightarrow>
          if truthy b \<and> typeof_object b \<and> js_in ''id'' b = Inr True \<and> truthy_opt (js_prop b ''id'')
          then
            (case js_prop b ''id'' of
               None \<Rightarrow> reg
             | Some i \<Rightarrow>
                 snd (ContextRegistry_create i plannedSid
                        (Some \<lparr>data_replicateToken =
                                 (case replicateAuth of None \<Rightarrow> None | Some a \<Rightarrow> auth_replicateToken a)\<rparr>)
                        now reg))
          else reg)"

definition invalid_session_payload :: "json option \<Rightarrow> jsonrpc_payload" where
  "invalid_session_payload body =
     \<lparr>p_error = Some \<lparr>err_code = -32600, err_message = ''Invalid session. Please re-initialize.''\<rparr>,
      p_result = None,
      p_id = (case (case body of None \<Rightarrow> None | Some b \<Rightarrow> js_prop b ''id'') of
                None \<Rightarrow> JNull | Some v \<Rightarrow> v)\<rparr>"

definition internal_error_payload :: jsonrpc_payload where
  "internal_error_payload =
     \<lparr>p_error = Some \<lparr>err_code = -32603, err_message = ''Internal server error''\<rparr>,
      p_result = None, p_id = JNull\<rparr>"

text \<open>
  The POST route. \<open>connect\<close> is \<^verbatim>\<open>server.connect\<close> and \<open>handleRequest\<close> the transport's
  \<^verbatim>\<open>handleRequest\<close> of the MCP library, which works on the whole state (it runs the tool
  handlers and, on initialize, the callback that stores the transport under its session id)
  and yields the response it wrote, or throws. \<open>uuid\<close> is \<^verbatim>\<open>randomUUID()\<close>, \<open>now\<close> is
  \<^verbatim>\<open>Date.now()\<close>, \<open>replicateAuth\<close> what the auth middleware attached.
\<close>

definition mcp_post ::
  "(nat \<Rightarrow> 'w \<Rightarrow> (js_error + unit) \<times> 'w)
   \<Rightarrow> (nat \<Rightarrow> json option \<Rightarrow> 'w node_state \<Rightarrow> (js_error + 'r http_response) \<times> 'w node_state)
   \<Rightarrow> string \<Rightarrow> int \<Rightarrow> ReplicateAuthContext option \<Rightarrow> http_request \<Rightarrow> 'w node_state
   \<Rightarrow> 'r http_response \<times> 'w node_state" where
  "mcp_post connect handleRequest uuid now replicateAuth request st =
     (let sessionIdHeader = headers request ''mcp-session-id'';
          body = json_body request;
          isInitialize =
            (case body of
               None \<Rightarrow> False
             | Some b \<Rightarrow> truthy b \<and> js_prop b ''method'' = Some (JStr ''initialize''));
          plannedSid =
            (if isInitialize
             then (if truthy_str sessionIdHeader then sessionIdHeader else Some uuid)
             else None);
          transport =
            (case sessionIdHeader of
               None \<Rightarrow> None
             | Some h \<Rightarrow> if h \<noteq> [] then map_of (transports st) h else None)
      in if truthy_str sessionIdHeader \<and> transport = None \<and> \<not> isInitialize
         then (\<lparr>resp_status = 400, resp_body = JsonRpc (invalid_session_payload body),
                mcp_session_id = None\<rparr>, st)
         else
           (let (t, st1) =
                  (case transport of
                     Some t \<Rightarrow> (t, st)
                   | None \<Rightarrow>
                       (next_transport st,
                        st\<lparr>transport_sid := (transport_sid st)(next_transport st := plannedSid),
                           next_transport := Suc (next_transport st)\<rparr>));
                st2 = st1\<lparr>contextRegistry :=
                            post_create_context body plannedSid replicateAuth now (contextRegistry st1)\<rparr>
            in case ensureConnected connect t st2 of
                 (Inl e, st3) \<Rightarrow>
                   (\<lparr>resp_status = 500, resp_body = JsonRpc internal_error_payload,
                     mcp_session_id = None\<rparr>, st3)
               | (Inr u, st3) \<Rightarrow>
                   (case handleRequest t body st3 of
                      (Inl e, st4) \<Rightarrow>
                        (\<lparr>resp_status = 500, resp_body = JsonRpc internal_error_payload,
                          mcp_session_id = None\<rparr>, st4)
                    | (Inr response, st4) \<Rightarrow> (response, st4))))"

section \<open>The Node application (http/app.ts)\<close>

text \<open>
  A POST to \<^verbatim>\<open>/mcp\<close> as \<^verbatim>\<open>buildHttpApp\<close> routes it: \<^verbatim>\<open>replicateAuthMiddleware\<close> attaches
  the auth context, \<^verbatim>\<open>requireAuth\<close> answers the request itself unless the context says
  authenticated, and only then does the POST route of \<^verbatim>\<open>buildMcpRoutes\<close> run, reading the
  auth context the middleware attached. (\<^verbatim>\<open>corsMiddleware\<close> only adds headers.)
\<close>

definition buildHttpApp_post_mcp ::
  "unified_config
   \<Rightarrow> (nat \<Rightarrow> 'w \<Rightarrow> (js_error + unit) \<times> 'w)
   \<Rightarrow> (nat \<Rightarrow> json option \<Rightarrow> 'w node_state \<Rightarrow> (js_error + 'r http_response) \<times> 'w node_state)
   \<Rightarrow> string \<Rightarrow> int \<Rightarrow> http_request \<Rightarrow> 'w node_state
   \<Rightarrow> 'r http_response \<times> 'w node_state" where
  "buildHttpApp_post_mcp config connect handleRequest uuid now request st =
     (let replicateAuth = replicateAuthMiddleware config (headers request)
      in case requireAuth (Some replicateAuth) of
           Some response \<Rightarrow> (response, st)
         | None \<Rightarrow> mcp_post connect handleRequest uuid now (Some replicateAuth) request st)"

section \<open>Tool wrapper (tools/index.ts)\<close>

text \<open>
  \<^verbatim>\<open>createWrappedHandler\<close>, in two steps. \<open>wrapped_enter\<close> is the part before the handler
  is called: it finds or makes the context the handler receives, and yields the registry as
  it is while the handler runs. The context made for a falsy request id is not registered;
  its token is a new object all the same.
\<close>

definition wrapped_enter :: "json option \<Rightarrow> int \<Rightarrow> registry \<Rightarrow> request_context \<times> registry" where
  "wrapped_enter rid now reg =
     (case rid of
        None \<Rightarrow>
          (\<lparr>sessionId = None, cancellationToken = next_token reg, requestId = None,
            timestamp = now, replicateToken = None\<rparr>,
           reg\<lparr>tokens := (tokens reg)(next_token reg := createCancellationToken),
               next_token := Suc (next_token reg)\<rparr>)
      | Some i \<Rightarrow>
          if truthy i
          then (case ContextRegistry_get i reg of
                  Some existingContext \<Rightarrow> (existingContext, reg)
                | None \<Rightarrow> ContextRegistry_create i None None now reg)
          else
            (\<lparr>sessionId = None, cancellationToken = next_token reg, requestId = None,
              timestamp = now, replicateToken = None\<rparr>,
             reg\<lparr>tokens := (tokens reg)(next_token reg := createCancellationToken),
                 next_token := Suc (next_token reg)\<rparr>))"

text \<open>
  The wrapped handler: the handler runs on the context, and the \<^verbatim>\<open>finally\<close> block deletes
  the context of a truthy request id whether the handler returned or threw.
\<close>

definition createWrappedHandler ::
  "('x \<Rightarrow> request_context \<Rightarrow> js_error + 'a) \<Rightarrow> 'x \<Rightarrow> json option \<Rightarrow> int \<Rightarrow> registry
   \<Rightarrow> (js_error + 'a) \<times> registry" where
  "createWrappedHandler handler args rid now reg =
     (let (ctx, reg1) = wrapped_enter rid now reg;
          outcome = handler args ctx
      in (outcome,
          (if truthy_opt rid
           then (case rid of None \<Rightarrow> reg1 | Some i \<Rightarrow> ContextRegistry_delete i reg1)
           else reg1)))"


section \<open>Text helpers\<close>

definition nl :: string where
  "nl = [CHR 0x0A]"

definition dq :: string where
  "dq = [CHR 0x22]"

text \<open>\<^verbatim>\<open>Array.prototype.join\<close>.\<close>

fun js_join :: "string \<Rightarrow> string list \<Rightarrow> string" where
  "js_join sep [] = []"
| "js_join sep [x] = x"
| "js_join sep (x # y # ys) = x @ sep @ js_join sep (y # ys)"

text \<open>\<^verbatim>\<open>String.prototype.includes\<close>.\<close>

fun js_includes :: "string \<Rightarrow> string \<Rightarrow> bool" where
  "js_includes [] p = (p = [])"
| "js_includes (c # cs) p = (take (length p) (c # cs) = p \<or> js_includes cs p)"

text \<open>\<^verbatim>\<open>String.prototype.toLowerCase\<close>, on the ASCII letters.\<close>

definition lower_char :: "char \<Rightarrow> char" where
  "lower_char c =
     (if (65::nat) \<le> of_char c \<and> of_char c \<le> (90::nat) then char_of (of_char c + (32::nat)) else c)"

definition toLowerCase :: "string \<Rightarrow> string" where
  "toLowerCase s = map lower_char s"

text \<open>A natural number in decimal, as a template literal prints it.\<close>

fun show_nat :: "nat \<Rightarrow> string" where
  "show_nat n =
     (if n < 10 then [char_of (48 + n)]
      else show_nat (n div 10) @ [char_of (48 + n mod 10)])"

declare show_nat.simps [simp del]

section \<open>Input schemas of the tools (zod)\<close>

text \<open>
  A validation issue as the handlers read it: the path of the offending value and the
  message.
\<close>

record zod_issue =
  issue_path :: "string list"
  issue_message :: string

text \<open>The type zod names in its default message.\<close>

fun zod_type_name :: "json \<Rightarrow> string" where
  "zod_type_name JNull = ''null''"
| "zod_type_name (JBool b) = ''boolean''"
| "zod_type_name (JNum n) = ''number''"
| "zod_type_name (JStr s) = ''string''"
| "zod_type_name (JArr xs) = ''array''"
| "zod_type_name (JObj kvs) = ''object''"

text \<open>The issue zod raises for a value of the wrong type, with its default message.\<close>

definition invalid_type_issue :: "string list \<Rightarrow> string \<Rightarrow> json option \<Rightarrow> zod_issue" where
  "invalid_type_issue path expected v =
     \<lparr>issue_path = path,
      issue_message =
        (case v of
           None \<Rightarrow> ''Required''
         | Some j \<Rightarrow> ''Expected '' @ expected @ '', received '' @ zod_type_name j)\<rparr>"

text \<open>The pattern \<^verbatim>\<open>/^[^/]+\/[^/]+$/\<close>: exactly one slash, with text on both sides.\<close>

definition model_format_ok :: "string \<Rightarrow> bool" where
  "model_format_ok s =
     (let owner = takeWhile (\<lambda>c. c \<noteq> CHR ''/'') s;
          rest = dropWhile (\<lambda>c. c \<noteq> CHR ''/'') s
      in owner \<noteq> [] \<and> rest \<noteq> [] \<and> tl rest \<noteq> [] \<and> CHR ''/'' \<notin> set (tl rest))"

text \<open>
  The field \<^verbatim>\<open>model: z.string().min(1, ...).regex(..., ...)\<close>. A string runs through every
  check, and each check that fails adds an issue of its own.
\<close>

definition model_issues :: "json option \<Rightarrow> zod_issue list" where
  "model_issues v =
     (case v of
        Some (JStr s) \<Rightarrow>
          (if length s < 1
           then [\<lparr>issue_path = [''model''], issue_message = ''Model cannot be empty''\<rparr>]
           else []) @
          (if \<not> model_format_ok s
           then [\<lparr>issue_path = [''model''],
                  issue_message =
                    ''Model must be in format '' @ dq @ ''owner/name'' @ dq @ '' (e.g., '' @ dq
                    @ ''black-forest-labs/flux-schnell'' @ dq @ '')''\<rparr>]
           else [])
      | _ \<Rightarrow> [invalid_type_issue [''model''] ''string'' v])"

text \<open>The field \<^verbatim>\<open>input: z.record(z.any())\<close>: any object, whatever its members.\<close>

definition input_issues :: "json option \<Rightarrow> zod_issue list" where
  "input_issues v =
     (case v of
        Some (JObj kvs) \<Rightarrow> []
      | _ \<Rightarrow> [invalid_type_issue [''input''] ''object'' v])"


text \<open>
  Modelled from the spec: \<^verbatim>\<open>strictSchema\<close> (schemas/common) is not among the sources. The
  spec only says that arguments are validated against the tool's input schema; going by its
  name and its use, it is taken to be zod's strict object schema, which raises one issue,
  at the root, naming all the keys the shape does not know.
\<close>

definition unrecognized_keys_issues :: "string list \<Rightarrow> (string \<times> json) list \<Rightarrow> zod_issue list" where
  "unrecognized_keys_issues shape kvs =
     (let extra = filter (\<lambda>k. k \<notin> set shape) (map fst kvs)
      in if extra \<noteq> []
         then [\<lparr>issue_path = [],
                issue_message =
                  ''Unrecognized key(s) in object: ''
                  @ js_join '', '' (map (\<lambda>k. [CHR 0x27] @ k @ [CHR 0x27]) extra)\<rparr>]
         else [])"

text \<open>
  \<^verbatim>\<open>GenerateImageInputSchema.safeParse(args)\<close>: the issues, or the parsed model and input.
\<close>

definition GenerateImageInputSchema_issues :: "json option \<Rightarrow> zod_issue list" where
  "GenerateImageInputSchema_issues args =
     (case args of
        Some (JObj kvs) \<Rightarrow>
          model_issues (map_of kvs ''model'') @ input_issues (map_of kvs ''input'')
          @ unrecognized_keys_issues [''model'', ''input''] kvs
      | _ \<Rightarrow> [invalid_type_issue [] ''object'' args])"

definition GenerateImageInputSchema_safeParse ::
  "json option \<Rightarrow> zod_issue list + string \<times> (string \<times> json) list" where
  "GenerateImageInputSchema_safeParse args =
     (if GenerateImageInputSchema_issues args \<noteq> []
      then Inl (GenerateImageInputSchema_issues args)
      else
        (case args of
           Some (JObj kvs) \<Rightarrow>
             Inr ((case map_of kvs ''model'' of Some (JStr m) \<Rightarrow> m | _ \<Rightarrow> []),
                  (case map_of kvs ''input'' of Some (JObj i) \<Rightarrow> i | _ \<Rightarrow> []))
         | _ \<Rightarrow> Inr ([], [])))"



section \<open>The tools (tools/generate-image.tool.ts, tools/search-models.tool.ts)\<close>

text \<open>
  \<^verbatim>\<open>CallToolResult\<close>: the optional error mark and the texts of the content blocks (all of
  type text).
\<close>

record CallToolResult =
  isError :: "bool option"
  content :: "string list"

text \<open>
  The upstream collaborator is reached through \<^verbatim>\<open>runPrediction\<close> and \<^verbatim>\<open>searchModels\<close>
  (services/api/replicate.service.ts) only. A handler yields, with its result, the calls it
  made to them.
\<close>

datatype upstream_call =
    RunPrediction string "(string \<times> json) list" string
  | SearchModels string string

datatype prediction_status = Starting | Processing | Succeeded | Failed | Canceled

record PredictionResult =
  pr_id :: string
  pr_status :: prediction_status
  pr_output :: "string list option"
  pr_error :: "string option"
  pr_predict_time :: "real option"

text \<open>The line \<^verbatim>\<open>- ${err.path.join('.')}: ${err.message}\<close> of one issue.\<close>

definition issue_line :: "zod_issue \<Rightarrow> string" where
  "issue_line err = ''- '' @ js_join ''.'' (issue_path err) @ '': '' @ issue_message err"

definition errorDetails :: "zod_issue list \<Rightarrow> string" where
  "errorDetails errors = js_join nl (map issue_line errors)"

definition is_rate_limit :: "string \<Rightarrow> bool" where
  "is_rate_limit errorMsg =
     (js_includes (toLowerCase errorMsg) ''rate limit''
      \<or> js_includes (toLowerCase errorMsg) ''too many requests''
      \<or> js_includes errorMsg ''429'')"

definition configuration_error_text :: string where
  "configuration_error_text =
     ''## Server Configuration Error'' @ nl @ nl
     @ ''REPLICATE_API_TOKEN is not configured on the server.'' @ nl @ nl
     @ ''Contact the server administrator.''"

definition missing_input_text :: "string \<Rightarrow> string" where
  "missing_input_text model =
     js_join nl
       [''## Missing Required Input'',
        [],
        ''Most image models require at least a prompt or image in the input.'',
        [],
        ''Example:'',
        ''{'',
        ''  '' @ dq @ ''model'' @ dq @ '': '' @ dq @ model @ dq @ '','',
        ''  '' @ dq @ ''input'' @ dq @ '': {'',
        ''    '' @ dq @ ''prompt'' @ dq @ '': '' @ dq @ ''a beautiful sunset over mountains'' @ dq,
        ''  }'',
        ''}'',
        [],
        ''Use search_models to see the exact requirements for '' @ dq @ model @ dq @ ''.'']"

definition rate_limit_text :: "string \<Rightarrow> string" where
  "rate_limit_text model =
     js_join nl
       [''## Rate Limit Exceeded'',
        [],
        ''Model: '' @ model,
        [],
        ''The Replicate API rate limit has been reached. Please wait a moment before trying again.'']"

definition generation_failed_text :: "string \<Rightarrow> string \<Rightarrow> string \<Rightarrow> string list \<Rightarrow> string" where
  "generation_failed_text model errorMsg heading hints =
     js_join nl
       ([''## Generation Failed'',
         [],
         ''Model: '' @ model,
         ''Error: '' @ errorMsg,
         [],
         heading] @ hints)"

definition markdownImages :: "string list \<Rightarrow> string" where
  "markdownImages outputUrls =
     js_join (nl @ nl)
       (map (\<lambda>(url, i).
               if length outputUrls > 1
               then ''Image '' @ show_nat (i + 1) @ '': ![Generated image '' @ show_nat (i + 1)
                    @ '']('' @ url @ '')''
               else ''![Generated image]('' @ url @ '')'')
          (zip outputUrls [0..<length outputUrls]))"

text \<open>
  The handler of \<^verbatim>\<open>generate_image\<close>. \<open>toFixed1\<close> is \<^verbatim>\<open>Number.prototype.toFixed(1)\<close>;
  \<open>runPrediction\<close> yields the prediction, or the message of the error it threw.
\<close>

definition generateImageTool_handler ::
  "(real \<Rightarrow> string)
   \<Rightarrow> (string \<Rightarrow> (string \<times> json) list \<Rightarrow> string \<Rightarrow> string + PredictionResult)
   \<Rightarrow> json option \<Rightarrow> request_context option \<Rightarrow> CallToolResult \<times> upstream_call list" where
  "generateImageTool_handler toFixed1 runPrediction args ctx =
     (case GenerateImageInputSchema_safeParse args of
        Inl errors \<Rightarrow>
          (\<lparr>isError = Some True,
            content = [''## Invalid Input'' @ nl @ nl @ errorDetails errors @ nl @ nl
                       @ ''Tip: Use search_models to see the correct input schema for your model.'']\<rparr>,
           [])
      | Inr (model, input) \<Rightarrow>
          (case (case ctx of None \<Rightarrow> None | Some c \<Rightarrow> replicateToken c) of
             None \<Rightarrow> (\<lparr>isError = Some True, content = [configuration_error_text]\<rparr>, [])
           | Some tok \<Rightarrow>
               if tok = [] then (\<lparr>isError = Some True, content = [configuration_error_text]\<rparr>, [])
               else if \<not> truthy_opt (map_of input ''prompt'') \<and> \<not> truthy_opt (map_of input ''image'')
               then (\<lparr>isError = Some True, content = [missing_input_text model]\<rparr>, [])
               else
                 (case runPrediction model input tok of
                    Inr prediction \<Rightarrow>
                      (if pr_status prediction = Failed
                       then
                         (let errorMsg = (case pr_error prediction of
                                            None \<Rightarrow> ''Unknown error''
                                          | Some e \<Rightarrow> if e \<noteq> [] then e else ''Unknown error'')
                          in \<lparr>isError = Some True,
                              content =
                                [if is_rate_limit errorMsg then rate_limit_text model
                                 else generation_failed_text model errorMsg ''Suggestions:''
                                        [''- Check that all required parameters are provided'',
                                         ''- Verify image URLs are publicly accessible'',
                                         ''- Try a simpler prompt'',
                                         ''- Use search_models to verify input schema'']]\<rparr>)
                       else if pr_status prediction = Canceled
                       then
                         \<lparr>isError = Some True,
                          content = [js_join nl [''## Generation Cancelled'', [],
                                       ''The prediction was cancelled before completion.'']]\<rparr>
                       else
                         (let outputUrls = (case pr_output prediction of None \<Rightarrow> [] | Some us \<Rightarrow> us);
                              timeInfo = (case pr_predict_time prediction of
                                            None \<Rightarrow> []
                                          | Some t \<Rightarrow> if t \<noteq> 0 then '' in '' @ toFixed1 t @ ''s'' else [])
                          in \<lparr>isError = None,
                              content =
                                [js_join nl
                                   [''## Image Generated'' @ timeInfo,
                                    [],
                                    ''Model: '' @ model,
                                    [],
                                    ''Display the image to the user using markdown syntax:'',
                                    [],
                                    markdownImages outputUrls,
                                    [],
                                    ''Note: URLs expire in 1 hour.'']]\<rparr>),
                       [RunPrediction model input tok])
                  | Inl errorMsg \<Rightarrow>
                      (\<lparr>isError = Some True,
                        content =
                          [if is_rate_limit errorMsg then rate_limit_text model
                           else generation_failed_text model errorMsg ''Common issues:''
                                  [''- Model name is incorrect (use search_models to find it)'',
                                   ''- Missing required parameters (use search_models to check schema)'',
                                   ''- Image URLs not publicly accessible'',
                                   ''- Rate limit exceeded'']]\<rparr>,
                       [RunPrediction model input tok]))))"


section \<open>Concrete inputs for the examples\<close>

text \<open>
  A registry with two contexts: request 1 registered at time 0, request 2 at time 659000
  (milliseconds).
\<close>

definition example_registry :: registry where
  "example_registry =
     snd (ContextRegistry_create (JNum 2) None None 659000
            (snd (ContextRegistry_create (JNum 1) None None 0 empty_registry)))"

text \<open>
  A registry with the contexts of the requests 7 and 9, after the handler of request 7 has
  registered the listener 4 on its token (the token at address 0).
\<close>

definition listening_registry :: registry where
  "listening_registry =
     (let reg = snd (ContextRegistry_create (JNum 9) None None 0
                  (snd (ContextRegistry_create (JNum 7) None None 0 empty_registry)))
      in reg\<lparr>tokens := (tokens reg)(0 := token_onCancel 4 (tokens reg 0))\<rparr>)"

section \<open>Repeated calls of ensureConnected\<close>

text \<open>
  Any sequence of calls of \<^verbatim>\<open>ensureConnected\<close>, one after the other, on the transports
  \<open>ts\<close>; a call that throws does not keep the later ones from running (they belong to
  other requests).
\<close>

fun ensureConnected_seq ::
  "(nat \<Rightarrow> 'w \<Rightarrow> (js_error + unit) \<times> 'w) \<Rightarrow> nat list \<Rightarrow> 'w node_state \<Rightarrow> 'w node_state" where
  "ensureConnected_seq connect [] st = st"
| "ensureConnected_seq connect (t # ts) st =
     ensureConnected_seq connect ts (snd (ensureConnected connect t st))"

text \<open>How often \<^verbatim>\<open>server.connect\<close> has gone through for the transport \<open>t\<close>.\<close>

definition connects_done :: "nat \<Rightarrow> 'w node_state \<Rightarrow> nat" where
  "connects_done t st = length (filter (\<lambda>c. c = (t, True)) (connect_calls st))"

text \<open>A library state for the examples: \<^verbatim>\<open>server.connect\<close> always resolves.\<close>

definition connect_resolves :: "nat \<Rightarrow> unit \<Rightarrow> (js_error + unit) \<times> unit" where
  "connect_resolves t w = (Inr (), w)"

definition fresh_node_state :: "unit node_state" where
  "fresh_node_state =
     \<lparr>transports = [], connectedTransports = {}, transport_sid = (\<lambda>t. None), next_transport = 0,
      connect_calls = [], contextRegistry = empty_registry, sdk = ()\<rparr>"

section \<open>What the specification asks of the API-key check\<close>

text \<open>
  A header of the Bearer form that carries the token \<open>tok\<close>: after spaces, if any, comes
  the word \<^verbatim>\<open>Bearer\<close> (the scheme, in any letter case), then at least one space, and after
  the spaces comes \<open>tok\<close>, up to the end of the header.
\<close>

definition bearer_header_carries :: "string \<Rightarrow> string \<Rightarrow> bool" where
  "bearer_header_carries h tok =
     (let s1 = dropWhile is_js_space h; after = drop 6 s1
      in map lower_char (take 6 s1) = ''bearer'' \<and> after \<noteq> [] \<and> is_js_space (hd after) \<and>
         dropWhile is_js_space after = tok)"

text \<open>
  The request carries the secret: its \<^verbatim>\<open>Authorization\<close> header is of the Bearer form and
  carries the secret, or its \<^verbatim>\<open>X-Api-Key\<close> header is the secret.
\<close>

definition carries_secret :: "(string \<Rightarrow> string option) \<Rightarrow> string \<Rightarrow> bool" where
  "carries_secret hdrs secret =
     ((case hdrs ''authorization'' of None \<Rightarrow> False | Some h \<Rightarrow> bearer_header_carries h secret) \<or>
      hdrs ''x-api-key'' = Some secret)"

text \<open>
  A secret that a header of the Bearer form can carry: not empty, not beginning with a space,
  and without a line terminator.
\<close>

definition usable_secret :: "string \<Rightarrow> bool" where
  "usable_secret secret =
     (secret \<noteq> [] \<and> \<not> is_js_space (hd secret) \<and> list_all (\<lambda>c. \<not> is_line_terminator c) secret)"

text \<open>Configurations and requests for the examples.\<close>

definition example_config :: unified_config where
  "example_config =
     \<lparr>MCP_TITLE = ''Replicate MCP Server'', MCP_VERSION = ''1.0.0'',
      API_KEY = Some ''s3cret'', REPLICATE_API_TOKEN = Some ''r8_token''\<rparr>"

definition open_config :: unified_config where
  "open_config =
     \<lparr>MCP_TITLE = ''Replicate MCP Server'', MCP_VERSION = ''1.0.0'',
      API_KEY = None, REPLICATE_API_TOKEN = Some ''r8_token''\<rparr>"

definition example_request :: "(string \<times> string) list \<Rightarrow> json option \<Rightarrow> http_request" where
  "example_request hs b = \<lparr>headers = map_of hs, json_body = b\<rparr>"

text \<open>
  A dispatcher for the examples. Its state counts the calls made to it; a request is
  answered with an empty result.
\<close>

definition example_notify :: "json \<Rightarrow> json option \<Rightarrow> McpDispatchContext \<Rightarrow> nat \<Rightarrow> nat" where
  "example_notify m p c w = Suc w"

definition example_dispatch ::
  "json option \<Rightarrow> json option \<Rightarrow> McpDispatchContext \<Rightarrow> json \<Rightarrow> nat \<Rightarrow> dispatch_result \<times> nat" where
  "example_dispatch m p c i w = (\<lparr>dr_result = Some (JObj []), dr_error = None\<rparr>, Suc w)"

definition fresh_workers_state :: "nat workers_state" where
  "fresh_workers_state = \<lparr>cancellationRegistryMap = [], world = 0\<rparr>"

section \<open>What the specification asks of the Workers endpoint\<close>

text \<open>The \<^verbatim>\<open>id\<close> member the body of a request carries, if it carries one.\<close>

definition request_id_of :: "http_request \<Rightarrow> json option" where
  "request_id_of request =
     (case json_body request of None \<Rightarrow> None | Some b \<Rightarrow> js_prop b ''id'')"

text \<open>
  The bodies the handler reads without throwing: text that is not JSON, an object, an
  array.
\<close>

fun readable_body :: "json option \<Rightarrow> bool" where
  "readable_body None = True"
| "readable_body (Some (JObj kvs)) = True"
| "readable_body (Some (JArr xs)) = True"
| "readable_body (Some v) = False"

text \<open>Bodies for the examples.\<close>

definition list_request_body :: "json \<Rightarrow> json" where
  "list_request_body i =
     JObj [(''jsonrpc'', JStr ''2.0''), (''id'', i), (''method'', JStr ''tools/list'')]"

definition initialized_notification_body :: json where
  "initialized_notification_body =
     JObj [(''jsonrpc'', JStr ''2.0''), (''method'', JStr ''notifications/initialized'')]"

section \<open>What the specification asks of the Node POST route\<close>

text \<open>The \<^verbatim>\<open>method\<close> member of the body of a request, if it has one.\<close>

definition request_method_of :: "http_request \<Rightarrow> json option" where
  "request_method_of request =
     (case json_body request of None \<Rightarrow> None | Some b \<Rightarrow> js_prop b ''method'')"

text \<open>
  A transport for the examples: it answers every request with HTTP 200 and leaves the state
  alone.
\<close>

definition example_handleRequest ::
  "nat \<Rightarrow> json option \<Rightarrow> unit node_state \<Rightarrow> (js_error + unit http_response) \<times> unit node_state" where
  "example_handleRequest t b st =
     (Inr \<lparr>resp_status = 200, resp_body = Written (), mcp_session_id = transport_sid st t\<rparr>, st)"

definition tools_call_body :: "json \<Rightarrow> json" where
  "tools_call_body i =
     JObj [(''jsonrpc'', JStr ''2.0''), (''id'', i), (''method'', JStr ''tools/call''),
           (''params'', JObj [(''name'', JStr ''generate_image''),
                              (''arguments'', JObj [(''model'', JStr ''a/b''),
                                                    (''input'', JObj [(''prompt'', JStr ''x'')])])])]"

definition example_auth :: ReplicateAuthContext where
  "example_auth = \<lparr>authenticated = True, auth_replicateToken = Some ''r8_token''\<rparr>"

section \<open>What the specification asks of the tools\<close>






definition reference_images_args :: "json option" where
  "reference_images_args =
     Some (JObj [(''model'', JStr ''a/b''),
                 (''input'', JObj [(''image_input'', JArr [JStr ''https://x/1.png''])])])"

definition example_context :: request_context where
  "example_context =
     \<lparr>sessionId = None, cancellationToken = 0, requestId = Some (JNum 1), timestamp = 1000,
      replicateToken = Some ''r8_token''\<rparr>"

definition example_toFixed1 :: "real \<Rightarrow> string" where
  "example_toFixed1 t = ''2.1''"

definition example_runPrediction ::
  "string \<Rightarrow> (string \<times> json) list \<Rightarrow> string \<Rightarrow> string + PredictionResult" where
  "example_runPrediction model input tok =
     Inr \<lparr>pr_id = ''p1'', pr_status = Succeeded, pr_output = Some [''https://x/y.png''],
          pr_error = None, pr_predict_time = Some 2.1\<rparr>"


section \<open>Properties of the context registry\<close>

lemma registry_ok_empty: "registry_ok empty_registry"
  by (simp add: registry_ok_def empty_registry_def)

lemma registry_ok_create:
  "registry_ok reg \<Longrightarrow> registry_ok (snd (ContextRegistry_create rid sid d now reg))"
  by (simp add: registry_ok_def ContextRegistry_create_def Let_def distinct_update)

lemma registry_ok_delete: "registry_ok reg \<Longrightarrow> registry_ok (ContextRegistry_delete rid reg)"
  by (simp add: registry_ok_def ContextRegistry_delete_def distinct_delete)

lemma registry_ok_cancel: "registry_ok reg \<Longrightarrow> registry_ok (snd (ContextRegistry_cancel rid reg))"
  by (simp add: registry_ok_def ContextRegistry_cancel_def split: option.splits)

lemma get_after_create:
  "ContextRegistry_get rid (snd (ContextRegistry_create rid sid d now reg)) =
     Some (fst (ContextRegistry_create rid sid d now reg))"
  by (simp add: ContextRegistry_get_def ContextRegistry_create_def Let_def update_conv')

lemma created_token_fresh:
  "\<not> token_isCanceled
       (tokens (snd (ContextRegistry_create rid sid d now reg))
          (cancellationToken (fst (ContextRegistry_create rid sid d now reg))))"
  by (simp add: ContextRegistry_create_def Let_def token_isCanceled_def createCancellationToken_def)

lemma get_after_delete: "ContextRegistry_get rid (ContextRegistry_delete rid reg) = None"
  by (simp add: ContextRegistry_get_def ContextRegistry_delete_def delete_conv')

lemma get_after_delete_other:
  "rid' \<noteq> rid \<Longrightarrow>
     ContextRegistry_get rid' (ContextRegistry_delete rid reg) = ContextRegistry_get rid' reg"
  by (simp add: ContextRegistry_get_def ContextRegistry_delete_def)

text \<open>The token of a canceled context stays canceled: cancel is idempotent.\<close>

lemma token_cancel_idem: "token_cancel (token_cancel t) = token_cancel t"
  by (simp add: token_cancel_def)

lemma token_cancel_canceled: "token_isCanceled (token_cancel t)"
  by (simp add: token_cancel_def token_isCanceled_def)

lemma token_cancel_notifies:
  "\<not> token_isCanceled t \<Longrightarrow> invoked (token_cancel t) = invoked t @ listeners t"
  by (simp add: token_cancel_def token_isCanceled_def)

lemma token_onCancel_after_cancel:
  "token_isCanceled t \<Longrightarrow> invoked (token_onCancel l t) = invoked t @ [l]"
  by (simp add: token_onCancel_def token_isCanceled_def)

text \<open>
  C6. For every request id R: when the registry holds no context for R, \<open>cancel(R)\<close>
  returns false and leaves the registry as it was. When it holds a context, \<open>cancel(R)\<close>
  returns true and does one thing: it calls \<open>cancel()\<close> on the token of that context.
  The map of contexts and every other token stay as they were. The token then reports
  canceled; if it was not canceled before, the listeners registered on it are invoked, in the
  order of their registration; if it was, nothing changes. A listener registered
  afterwards is invoked at once.
\<close>

theorem cancel_signals_token:
  "(ContextRegistry_get R reg = None \<longrightarrow> ContextRegistry_cancel R reg = (False, reg)) \<and>
   (\<forall>ctx. ContextRegistry_get R reg = Some ctx \<longrightarrow>
      ContextRegistry_cancel R reg =
        (True, reg\<lparr>tokens := (tokens reg)
                  (cancellationToken ctx := token_cancel (tokens reg (cancellationToken ctx)))\<rparr>) \<and>
      fst (ContextRegistry_cancel R reg) = True \<and>
      contexts (snd (ContextRegistry_cancel R reg)) = contexts reg \<and>
      next_token (snd (ContextRegistry_cancel R reg)) = next_token reg \<and>
      (\<forall>b. b \<noteq> cancellationToken ctx \<longrightarrow>
           tokens (snd (ContextRegistry_cancel R reg)) b = tokens reg b) \<and>
      token_isCanceled (tokens (snd (ContextRegistry_cancel R reg)) (cancellationToken ctx)) \<and>
      listeners (tokens (snd (ContextRegistry_cancel R reg)) (cancellationToken ctx)) =
        listeners (tokens reg (cancellationToken ctx)) \<and>
      (\<not> token_isCanceled (tokens reg (cancellationToken ctx)) \<longrightarrow>
         invoked (tokens (snd (ContextRegistry_cancel R reg)) (cancellationToken ctx)) =
           invoked (tokens reg (cancellationToken ctx)) @
           listeners (tokens reg (cancellationToken ctx))) \<and>
      (token_isCanceled (tokens reg (cancellationToken ctx)) \<longrightarrow>
         tokens (snd (ContextRegistry_cancel R reg)) (cancellationToken ctx) =
           tokens reg (cancellationToken ctx)) \<and>
      (\<forall>l. invoked (token_onCancel l
                      (tokens (snd (ContextRegistry_cancel R reg)) (cancellationToken ctx))) =
            invoked (tokens (snd (ContextRegistry_cancel R reg)) (cancellationToken ctx)) @ [l]))"
proof -
  have absent: "ContextRegistry_get R reg = None \<Longrightarrow> ContextRegistry_cancel R reg = (False, reg)"
    by (simp add: ContextRegistry_get_def ContextRegistry_cancel_def)
  have run: "ContextRegistry_cancel R reg =
      (True, reg\<lparr>tokens := (tokens reg)
                (cancellationToken ctx := token_cancel (tokens reg (cancellationToken ctx)))\<rparr>)"
    if "ContextRegistry_get R reg = Some ctx" for ctx
    using that by (simp add: ContextRegistry_get_def ContextRegistry_cancel_def)
  have canceled_now:
    "token_isCanceled (tokens (snd (ContextRegistry_cancel R reg)) (cancellationToken ctx))"
    if "ContextRegistry_get R reg = Some ctx" for ctx
    by (simp add: run [OF that] token_cancel_canceled)
  have same_listeners:
    "listeners (tokens (snd (ContextRegistry_cancel R reg)) (cancellationToken ctx)) =
      listeners (tokens reg (cancellationToken ctx))"
    if "ContextRegistry_get R reg = Some ctx" for ctx
    by (simp add: run [OF that] token_cancel_def)
  have others: "tokens (snd (ContextRegistry_cancel R reg)) b = tokens reg b"
    if "ContextRegistry_get R reg = Some ctx" "b \<noteq> cancellationToken ctx" for ctx b
    using that(2) by (simp add: run [OF that(1)])
  have notified:
    "invoked (tokens (snd (ContextRegistry_cancel R reg)) (cancellationToken ctx)) =
       invoked (tokens reg (cancellationToken ctx)) @ listeners (tokens reg (cancellationToken ctx))"
    if "ContextRegistry_get R reg = Some ctx"
      "\<not> token_isCanceled (tokens reg (cancellationToken ctx))" for ctx
    using that(2) by (simp add: run [OF that(1)] token_cancel_notifies)
  have unchanged:
    "tokens (snd (ContextRegistry_cancel R reg)) (cancellationToken ctx) =
       tokens reg (cancellationToken ctx)"
    if "ContextRegistry_get R reg = Some ctx"
      "token_isCanceled (tokens reg (cancellationToken ctx))" for ctx
    using that(2) by (simp add: run [OF that(1)] token_cancel_def token_isCanceled_def)
  have late:
    "invoked (token_onCancel l
               (tokens (snd (ContextRegistry_cancel R reg)) (cancellationToken ctx))) =
     invoked (tokens (snd (ContextRegistry_cancel R reg)) (cancellationToken ctx)) @ [l]"
    if "ContextRegistry_get R reg = Some ctx" for ctx l
    using canceled_now [OF that] by (rule token_onCancel_after_cancel)
  have part: "ContextRegistry_cancel R reg =
        (True, reg\<lparr>tokens := (tokens reg)
                  (cancellationToken ctx := token_cancel (tokens reg (cancellationToken ctx)))\<rparr>) \<and>
      fst (ContextRegistry_cancel R reg) = True \<and>
      contexts (snd (ContextRegistry_cancel R reg)) = contexts reg \<and>
      next_token (snd (ContextRegistry_cancel R reg)) = next_token reg"
    if "ContextRegistry_get R reg = Some ctx" for ctx
    using run [OF that] by simp
  show ?thesis
    using absent part others canceled_now same_listeners notified unchanged late
    by blast
qed

theorem cancel_signals_token_witness:
  "ContextRegistry_cancel (JNum 8) listening_registry = (False, listening_registry) \<and>
   ContextRegistry_get (JNum 7) listening_registry =
     Some \<lparr>sessionId = None, cancellationToken = 0, requestId = Some (JNum 7), timestamp = 0,
           replicateToken = None\<rparr> \<and>
   \<not> token_isCanceled (tokens listening_registry 0) \<and>
   listeners (tokens listening_registry 0) = [4] \<and>
   fst (ContextRegistry_cancel (JNum 7) listening_registry) = True \<and>
   token_isCanceled (tokens (snd (ContextRegistry_cancel (JNum 7) listening_registry)) 0) \<and>
   invoked (tokens (snd (ContextRegistry_cancel (JNum 7) listening_registry)) 0) = [4] \<and>
   tokens (snd (ContextRegistry_cancel (JNum 7) listening_registry)) 1 =
     tokens listening_registry 1 \<and>
   \<not> token_isCanceled (tokens (snd (ContextRegistry_cancel (JNum 7) listening_registry)) 1) \<and>
   invoked (token_onCancel 5
     (tokens (snd (ContextRegistry_cancel (JNum 7) listening_registry)) 0)) = [4, 5]"
proof -
  let ?reg = listening_registry
  let ?ctx = "\<lparr>sessionId = None, cancellationToken = 0, requestId = Some (JNum 7), timestamp = 0,
            replicateToken = None\<rparr>"
  have absent: "ContextRegistry_get (JNum 8) ?reg = None"
    by (simp add: listening_registry_def ContextRegistry_get_def ContextRegistry_create_def
        empty_registry_def Let_def)
  have present: "ContextRegistry_get (JNum 7) ?reg = Some ?ctx"
    by (simp add: listening_registry_def ContextRegistry_get_def ContextRegistry_create_def
        empty_registry_def Let_def)
  have before: "\<not> token_isCanceled (tokens ?reg 0)" "listeners (tokens ?reg 0) = [4]"
    "invoked (tokens ?reg 0) = []" "\<not> token_isCanceled (tokens ?reg 1)"
    by (simp_all add: listening_registry_def ContextRegistry_create_def empty_registry_def Let_def
        token_isCanceled_def token_onCancel_def createCancellationToken_def)
  from cancel_signals_token [of "JNum 8" ?reg] absent
  have c1: "ContextRegistry_cancel (JNum 8) ?reg = (False, ?reg)"
    by blast
  from cancel_signals_token [of "JNum 7" ?reg] present
  have c2: "fst (ContextRegistry_cancel (JNum 7) ?reg) = True \<and>
      (\<forall>b. b \<noteq> cancellationToken ?ctx \<longrightarrow>
           tokens (snd (ContextRegistry_cancel (JNum 7) ?reg)) b = tokens ?reg b) \<and>
      token_isCanceled (tokens (snd (ContextRegistry_cancel (JNum 7) ?reg)) (cancellationToken ?ctx)) \<and>
      (\<not> token_isCanceled (tokens ?reg (cancellationToken ?ctx)) \<longrightarrow>
         invoked (tokens (snd (ContextRegistry_cancel (JNum 7) ?reg)) (cancellationToken ?ctx)) =
           invoked (tokens ?reg (cancellationToken ?ctx)) @ listeners (tokens ?reg (cancellationToken ?ctx))) \<and>
      (\<forall>l. invoked (token_onCancel l
                      (tokens (snd (ContextRegistry_cancel (JNum 7) ?reg)) (cancellationToken ?ctx))) =
            invoked (tokens (snd (ContextRegistry_cancel (JNum 7) ?reg)) (cancellationToken ?ctx)) @ [l])"
    by blast
  then have c3: "fst (ContextRegistry_cancel (JNum 7) ?reg) = True"
    and other: "tokens (snd (ContextRegistry_cancel (JNum 7) ?reg)) 1 = tokens ?reg 1"
    and signalled: "token_isCanceled (tokens (snd (ContextRegistry_cancel (JNum 7) ?reg)) 0)"
    and told: "invoked (tokens (snd (ContextRegistry_cancel (JNum 7) ?reg)) 0) = [4]"
    and late: "invoked (token_onCancel 5 (tokens (snd (ContextRegistry_cancel (JNum 7) ?reg)) 0)) =
        invoked (tokens (snd (ContextRegistry_cancel (JNum 7) ?reg)) 0) @ [5]"
    using before by simp_all
  show ?thesis
    using c1 present before c3 other signalled told late by simp
qed

text \<open>The sweep as a filter: on a map, the loop keeps exactly the entries that are not too old.\<close>

lemma fold_cleanup_filter:
  "fold (cleanup_step now) es cs =
     filter (\<lambda>p. \<not> (\<exists>e \<in> set es. fst e = fst p \<and> now - timestamp (snd e) > maxAge)) cs"
proof (induction es arbitrary: cs)
  case Nil
  then show ?case by simp
next
  case (Cons e es)
  have step: "cleanup_step now e cs =
      filter (\<lambda>p. \<not> (fst e = fst p \<and> now - timestamp (snd e) > maxAge)) cs"
    by (auto simp: cleanup_step_def AList.delete_eq intro!: filter_cong filter_True [symmetric])
  have "fold (cleanup_step now) (e # es) cs = fold (cleanup_step now) es (cleanup_step now e cs)"
    by simp
  also have "\<dots> =
      filter (\<lambda>p. \<not> (\<exists>e \<in> set es. fst e = fst p \<and> now - timestamp (snd e) > maxAge))
        (cleanup_step now e cs)"
    by (rule Cons.IH)
  also have "\<dots> =
      filter (\<lambda>p. \<not> (\<exists>e \<in> set (e # es). fst e = fst p \<and> now - timestamp (snd e) > maxAge)) cs"
    unfolding step by (auto intro!: filter_cong)
  finally show ?case .
qed

lemma cleanup_contexts_filter:
  assumes "distinct (map fst cs)"
  shows "fold (cleanup_step now) cs cs = filter (\<lambda>p. \<not> now - timestamp (snd p) > maxAge) cs"
proof -
  have "\<And>p. p \<in> set cs \<Longrightarrow>
      (\<exists>e \<in> set cs. fst e = fst p \<and> now - timestamp (snd e) > maxAge) =
      (now - timestamp (snd p) > maxAge)"
    using assms by (metis eq_key_imp_eq_value prod.collapse)
  then show ?thesis
    unfolding fold_cleanup_filter by (intro filter_cong) auto
qed

lemma map_of_filter_value:
  "distinct (map fst cs) \<Longrightarrow>
     map_of (filter (\<lambda>p. P (snd p)) cs) k =
       (case map_of cs k of None \<Rightarrow> None | Some v \<Rightarrow> if P v then Some v else None)"
proof (induction cs)
  case Nil
  then show ?case by simp
next
  case (Cons c cs)
  then show ?case
    by (cases c) (auto split: option.splits simp: map_of_eq_None_iff image_iff)
qed

lemma registry_ok_cleanup:
  "registry_ok reg \<Longrightarrow> registry_ok (ContextRegistry_cleanupExpired now reg)"
  by (simp add: registry_ok_def ContextRegistry_cleanupExpired_def cleanup_contexts_filter
      distinct_map_filter)

text \<open>
  C7. One run of the sweep at time \<open>now\<close> keeps exactly the contexts whose age
  \<open>now - timestamp\<close> does not exceed ten minutes (600000 ms), in their order and unchanged,
  and removes all the others; the tokens are left alone. Looked up by request id: a context
  older than the threshold is gone, every other context is still there as it was.
\<close>

theorem cleanupExpired_exact:
  assumes "registry_ok reg"
  shows "maxAge = 600000 \<and>
    contexts (ContextRegistry_cleanupExpired now reg) =
      filter (\<lambda>p. \<not> now - timestamp (snd p) > maxAge) (contexts reg) \<and>
    tokens (ContextRegistry_cleanupExpired now reg) = tokens reg \<and>
    ContextRegistry_get R (ContextRegistry_cleanupExpired now reg) =
      (case ContextRegistry_get R reg of
         None \<Rightarrow> None
       | Some ctx \<Rightarrow> if now - timestamp ctx > maxAge then None else Some ctx)"
proof -
  have keys: "distinct (map fst (contexts reg))"
    using assms by (simp add: registry_ok_def)
  have kept: "contexts (ContextRegistry_cleanupExpired now reg) =
      filter (\<lambda>p. \<not> now - timestamp (snd p) > maxAge) (contexts reg)"
    by (simp add: ContextRegistry_cleanupExpired_def cleanup_contexts_filter [OF keys])
  have lookup: "ContextRegistry_get R (ContextRegistry_cleanupExpired now reg) =
      (case ContextRegistry_get R reg of
         None \<Rightarrow> None
       | Some ctx \<Rightarrow> if now - timestamp ctx > maxAge then None else Some ctx)"
    unfolding ContextRegistry_get_def kept
    using map_of_filter_value [OF keys, of "\<lambda>c. \<not> now - timestamp c > maxAge" R]
    by (simp split: option.splits)
  show ?thesis
    using kept lookup by (simp add: maxAge_def ContextRegistry_cleanupExpired_def)
qed

theorem cleanupExpired_exact_witness:
  "registry_ok example_registry \<and>
   ContextRegistry_get (JNum 1) (ContextRegistry_cleanupExpired 660000 example_registry) = None \<and>
   ContextRegistry_get (JNum 2) (ContextRegistry_cleanupExpired 660000 example_registry) =
     Some \<lparr>sessionId = None, cancellationToken = 1, requestId = Some (JNum 2),
           timestamp = 659000, replicateToken = None\<rparr>"
proof -
  have ok: "registry_ok example_registry"
    by (simp add: example_registry_def registry_ok_create registry_ok_empty)
  have g1: "ContextRegistry_get (JNum 1) example_registry =
      Some \<lparr>sessionId = None, cancellationToken = 0, requestId = Some (JNum 1),
            timestamp = 0, replicateToken = None\<rparr>"
    by (simp add: example_registry_def ContextRegistry_get_def ContextRegistry_create_def
        empty_registry_def Let_def)
  have g2: "ContextRegistry_get (JNum 2) example_registry =
      Some \<lparr>sessionId = None, cancellationToken = 1, requestId = Some (JNum 2),
            timestamp = 659000, replicateToken = None\<rparr>"
    by (simp add: example_registry_def ContextRegistry_get_def ContextRegistry_create_def
        empty_registry_def Let_def)
  show ?thesis
    using ok cleanupExpired_exact [OF ok, of 660000 "JNum 1"]
      cleanupExpired_exact [OF ok, of 660000 "JNum 2"] g1 g2
    by simp
qed

section \<open>Properties of ensureConnected\<close>

lemma ensureConnected_connected:
  "t \<in> connectedTransports st \<Longrightarrow> ensureConnected connect t st = (Inr (), st)"
  by (simp add: ensureConnected_def)

lemma ensureConnected_keeps_connected:
  "t \<in> connectedTransports st \<Longrightarrow> t \<in> connectedTransports (snd (ensureConnected connect u st))"
  by (auto simp: ensureConnected_def Let_def split: prod.splits sum.splits)

lemma ensureConnected_resolved:
  "fst (ensureConnected connect t st) = Inr () \<Longrightarrow>
     t \<in> connectedTransports (snd (ensureConnected connect t st))"
  by (auto simp: ensureConnected_def Let_def split: prod.splits sum.splits if_splits)

text \<open>
  The invariant of a transport \<open>t\<close>: either no connect of \<open>t\<close> has gone through, or
  exactly one has and \<open>t\<close> is in the set of connected transports.
\<close>

lemma ensureConnected_step:
  assumes "connects_done t st = 0 \<or> (connects_done t st = 1 \<and> t \<in> connectedTransports st)"
  shows "connects_done t (snd (ensureConnected connect u st)) = 0 \<or>
         (connects_done t (snd (ensureConnected connect u st)) = 1 \<and>
          t \<in> connectedTransports (snd (ensureConnected connect u st)))"
proof (cases "u \<in> connectedTransports st")
  case True
  then show ?thesis
    using assms by (simp add: ensureConnected_def)
next
  case False
  obtain r w where c: "connect u (sdk st) = (r, w)"
    by (cases "connect u (sdk st)")
  show ?thesis
  proof (cases r)
    case (Inl e)
    then show ?thesis
      using assms False c by (auto simp: ensureConnected_def connects_done_def)
  next
    case (Inr x)
    then show ?thesis
      using assms False c by (auto simp: ensureConnected_def connects_done_def)
  qed
qed

lemma ensureConnected_seq_inv:
  "connects_done t st = 0 \<or> (connects_done t st = 1 \<and> t \<in> connectedTransports st) \<Longrightarrow>
     connects_done t (ensureConnected_seq connect ts st) = 0 \<or>
     (connects_done t (ensureConnected_seq connect ts st) = 1 \<and>
      t \<in> connectedTransports (ensureConnected_seq connect ts st))"
proof (induction ts arbitrary: st)
  case Nil
  then show ?case by simp
next
  case (Cons u ts)
  from ensureConnected_step [OF Cons.prems]
  have "connects_done t (snd (ensureConnected connect u st)) = 0 \<or>
        (connects_done t (snd (ensureConnected connect u st)) = 1 \<and>
         t \<in> connectedTransports (snd (ensureConnected connect u st)))" .
  from Cons.IH [OF this] show ?case by simp
qed

text \<open>
  C8. Take a transport \<open>t\<close> for which \<^verbatim>\<open>server.connect\<close> has not yet gone through. After
  any number of calls of "ensure connected", on \<open>t\<close> or on other transports, the connect
  step has gone through for \<open>t\<close> at most once. A call that returns normally leaves \<open>t\<close>
  connected, and a call on a connected transport is a no-op: it returns normally, calls
  nothing and changes nothing.
\<close>

theorem ensureConnected_at_most_once:
  "(connects_done t st = 0 \<longrightarrow> connects_done t (ensureConnected_seq connect ts st) \<le> 1) \<and>
   (fst (ensureConnected connect t st) = Inr () \<longrightarrow>
      t \<in> connectedTransports (snd (ensureConnected connect t st))) \<and>
   (t \<in> connectedTransports st \<longrightarrow> ensureConnected connect t st = (Inr (), st))"
proof (intro conjI impI)
  assume "connects_done t st = 0"
  then have "connects_done t st = 0 \<or> (connects_done t st = 1 \<and> t \<in> connectedTransports st)"
    by simp
  from ensureConnected_seq_inv [OF this, of connect ts]
  show "connects_done t (ensureConnected_seq connect ts st) \<le> 1"
    by auto
next
  assume "fst (ensureConnected connect t st) = Inr ()"
  then show "t \<in> connectedTransports (snd (ensureConnected connect t st))"
    by (rule ensureConnected_resolved)
next
  assume "t \<in> connectedTransports st"
  then show "ensureConnected connect t st = (Inr (), st)"
    by (rule ensureConnected_connected)
qed

theorem ensureConnected_at_most_once_witness:
  "connects_done 3 fresh_node_state = 0 \<and>
   connects_done 3 (ensureConnected_seq connect_resolves [3, 3, 4, 3] fresh_node_state) \<le> 1 \<and>
   connects_done 3 (ensureConnected_seq connect_resolves [3, 3, 4, 3] fresh_node_state) = 1 \<and>
   fst (ensureConnected connect_resolves 3 fresh_node_state) = Inr () \<and>
   3 \<in> connectedTransports (snd (ensureConnected connect_resolves 3 fresh_node_state)) \<and>
   ensureConnected connect_resolves 3 (snd (ensureConnected connect_resolves 3 fresh_node_state)) =
     (Inr (), snd (ensureConnected connect_resolves 3 fresh_node_state))"
proof -
  have fresh: "connects_done 3 fresh_node_state = 0"
    by (simp add: connects_done_def fresh_node_state_def)
  have first: "fst (ensureConnected connect_resolves 3 fresh_node_state) = Inr ()"
    by (simp add: ensureConnected_def connect_resolves_def fresh_node_state_def)
  have count: "connects_done 3 (ensureConnected_seq connect_resolves [3, 3, 4, 3] fresh_node_state) = 1"
    by (simp add: ensureConnected_def connect_resolves_def fresh_node_state_def connects_done_def)
  note spec = ensureConnected_at_most_once
  from spec [of 3 fresh_node_state connect_resolves "[3, 3, 4, 3]"] fresh
  have bound: "connects_done 3 (ensureConnected_seq connect_resolves [3, 3, 4, 3] fresh_node_state) \<le> 1"
    by blast
  from spec [of 3 fresh_node_state connect_resolves "[3, 3, 4, 3]"] first
  have conn: "3 \<in> connectedTransports (snd (ensureConnected connect_resolves 3 fresh_node_state))"
    by blast
  from spec [of 3 "snd (ensureConnected connect_resolves 3 fresh_node_state)" connect_resolves "[]"] conn
  have again: "ensureConnected connect_resolves 3
        (snd (ensureConnected connect_resolves 3 fresh_node_state)) =
      (Inr (), snd (ensureConnected connect_resolves 3 fresh_node_state))"
    by blast
  show ?thesis
    using fresh first bound count conn again by simp
qed

section \<open>Properties of the API-key check\<close>

lemma first_some_single: "first_some f [x] = f x"
  by (simp split: option.splits)

text \<open>The usual header, \<^verbatim>\<open>Bearer\<close>, one space and the token, yields the token.\<close>

lemma bearerMatch_canonical:
  assumes "tok \<noteq> []" and "\<not> is_js_space (hd tok)" and "list_all (\<lambda>c. \<not> is_line_terminator c) tok"
  shows "bearerMatch (''Bearer '' @ tok) = Some tok"
proof -
  have lead: "takeWhile is_js_space (''Bearer '' @ tok) = []"
    by (simp add: is_js_space_def)
  have lit: "matches_Bearer (''Bearer '' @ tok)"
    by (simp add: matches_Bearer_def)
  have run: "takeWhile is_js_space ('' '' @ tok) = '' ''"
    using assms(1,2) by (cases tok) (simp_all add: is_js_space_def)
  have rest: "bearer_rest ('' '' @ tok) = Some tok"
    unfolding bearer_rest_def run using assms(1,3) by (simp add: Let_def)
  show ?thesis
    unfolding bearerMatch_def lead using lit rest by (simp add: Let_def)
qed

lemma first_some_SomeD: "first_some f xs = Some y \<Longrightarrow> \<exists>x \<in> set xs. f x = Some y"
  by (induction xs) (auto split: option.splits)

lemma take_within_run:
  assumes "i \<le> length (takeWhile P s)"
  shows "list_all P (take i s)"
proof -
  have "take i s = take i (takeWhile P s @ dropWhile P s)"
    by simp
  also have "\<dots> = take i (takeWhile P s)"
    using assms by (simp del: takeWhile_dropWhile_id)
  finally have "set (take i s) \<subseteq> set (takeWhile P s)"
    by (simp add: set_take_subset)
  then show ?thesis
    by (auto simp: list_all_iff dest: set_takeWhileD)
qed

text \<open>Lower-casing, letter by letter.\<close>

lemma of_char_lower_char:
  "(of_char (lower_char c) :: nat) =
     (if 65 \<le> (of_char c :: nat) \<and> (of_char c :: nat) \<le> 90 then of_char c + 32 else of_char c)"
  by (simp add: lower_char_def)

lemma lower_char_letter:
  assumes "(of_char u :: nat) + 32 = of_char l" and "65 \<le> (of_char u :: nat)"
    and "(of_char u :: nat) \<le> 90"
  shows "lower_char c = l \<longleftrightarrow> c = u \<or> c = l"
proof -
  have "lower_char c = l \<longleftrightarrow> (of_char (lower_char c) :: nat) = of_char l"
    by simp
  also have "\<dots> \<longleftrightarrow> (of_char c :: nat) = of_char u \<or> (of_char c :: nat) = of_char l"
    unfolding of_char_lower_char using assms by (auto simp del: of_char_eq_iff)
  also have "\<dots> \<longleftrightarrow> c = u \<or> c = l"
    by simp
  finally show ?thesis .
qed

lemma matches_Bearer_lower:
  assumes "length w = 6"
  shows "matches_Bearer w \<longleftrightarrow> map lower_char w = ''bearer''"
proof -
  from assms obtain a b c d e f where w: "w = [a, b, c, d, e, f]"
    by (auto simp: length_Suc_conv eval_nat_numeral)
  show ?thesis
    unfolding w
    by (simp add: matches_Bearer_def
        lower_char_letter [of "CHR ''B''" "CHR ''b''"] lower_char_letter [of "CHR ''E''" "CHR ''e''"]
        lower_char_letter [of "CHR ''A''" "CHR ''a''"] lower_char_letter [of "CHR ''R''" "CHR ''r''"])
qed

text \<open>What a successful match of the pattern consists of.\<close>

lemma bearerMatch_SomeD:
  assumes "bearerMatch h = Some tok"
  shows "\<exists>i j. i \<le> length (takeWhile is_js_space h) \<and> matches_Bearer (drop i h) \<and>
               1 \<le> j \<and> j \<le> length (takeWhile is_js_space (drop 6 (drop i h))) \<and>
               tok = drop j (drop 6 (drop i h)) \<and> tok \<noteq> [] \<and>
               list_all (\<lambda>c. \<not> is_line_terminator c) tok"
proof -
  from assms
  have "\<exists>i \<in> set (rev [0..<Suc (length (takeWhile is_js_space h))]).
          (let s1 = drop i h in if matches_Bearer s1 then bearer_rest (drop 6 s1) else None) =
          Some tok"
    unfolding bearerMatch_def by (rule first_some_SomeD)
  then obtain i where i_in: "i \<in> set (rev [0..<Suc (length (takeWhile is_js_space h))])"
    and at_i: "(let s1 = drop i h in if matches_Bearer s1 then bearer_rest (drop 6 s1) else None) =
          Some tok"
    by blast
  from i_in have i: "i \<le> length (takeWhile is_js_space h)"
    by auto
  from at_i have lit: "matches_Bearer (drop i h)"
    and rest: "bearer_rest (drop 6 (drop i h)) = Some tok"
    by (simp_all add: Let_def split: if_splits)
  let ?s2 = "drop 6 (drop i h)"
  let ?attempt = "\<lambda>j. let g = drop j ?s2
                 in if g \<noteq> [] \<and> list_all (\<lambda>c. \<not> is_line_terminator c) g then Some g else None"
  from rest
  have "\<exists>j \<in> set (rev [1..<Suc (length (takeWhile is_js_space ?s2))]). ?attempt j = Some tok"
    unfolding bearer_rest_def by (rule first_some_SomeD)
  then obtain j where j_in: "j \<in> set (rev [1..<Suc (length (takeWhile is_js_space ?s2))])"
    and at_j: "?attempt j = Some tok"
    by blast
  from j_in have j: "1 \<le> j" "j \<le> length (takeWhile is_js_space ?s2)"
    by auto
  from at_j have tok: "tok = drop j ?s2" "tok \<noteq> []" "list_all (\<lambda>c. \<not> is_line_terminator c) tok"
    by (auto simp: Let_def split: if_splits)
  show ?thesis
    using i lit j tok by blast
qed

text \<open>
  Whatever header yields a token has the Bearer form: spaces (possibly none), the word
  \<^verbatim>\<open>Bearer\<close> in any capitalisation, at least one space, and then the token, which is not
  empty and has no line terminator in it.
\<close>

lemma bearerMatch_shape:
  assumes "bearerMatch h = Some tok"
  shows "\<exists>lead word gap.
           h = lead @ word @ gap @ tok \<and> list_all is_js_space lead \<and>
           length word = 6 \<and> matches_Bearer word \<and>
           gap \<noteq> [] \<and> list_all is_js_space gap \<and>
           tok \<noteq> [] \<and> list_all (\<lambda>c. \<not> is_line_terminator c) tok"
proof -
  from bearerMatch_SomeD [OF assms]
  obtain i j where i: "i \<le> length (takeWhile is_js_space h)"
    and lit: "matches_Bearer (drop i h)"
    and j: "1 \<le> j" "j \<le> length (takeWhile is_js_space (drop 6 (drop i h)))"
    and tok: "tok = drop j (drop 6 (drop i h))" "tok \<noteq> []"
      "list_all (\<lambda>c. \<not> is_line_terminator c) tok"
    by blast
  let ?s2 = "drop 6 (drop i h)"
  have len: "length (take 6 (drop i h)) = 6"
    using lit by (auto simp: matches_Bearer_def dest: list_all2_lengthD)
  have word: "matches_Bearer (take 6 (drop i h))"
    using lit by (simp add: matches_Bearer_def)
  have "j \<le> length ?s2"
    using j(2) by (meson le_trans length_takeWhile_le)
  then have gap: "take j ?s2 \<noteq> []"
    using j(1) by auto
  have split: "h = take i h @ take 6 (drop i h) @ take j ?s2 @ tok"
    unfolding tok(1) by (simp only: append_take_drop_id)
  show ?thesis
    using split take_within_run [OF i] len word gap take_within_run [OF j(2)] tok(2,3)
    by blast
qed

lemma inside_run:
  assumes "i < length (takeWhile P s)"
  shows "drop i s \<noteq> [] \<and> P (hd (drop i s))"
proof -
  have len: "i < length s"
    using assms by (meson length_takeWhile_le less_le_trans)
  have "takeWhile P s ! i = s ! i"
    using assms by (rule takeWhile_nth)
  moreover have "P (takeWhile P s ! i)"
    using assms by (meson nth_mem set_takeWhileD)
  ultimately show ?thesis
    using len by (simp add: hd_drop_conv_nth)
qed

lemma matches_Bearer_head:
  "matches_Bearer s \<Longrightarrow> s \<noteq> [] \<and> \<not> is_js_space (hd s)"
  by (cases s) (auto simp: matches_Bearer_def is_js_space_def)

lemma first_some_head: "f x = Some y \<Longrightarrow> first_some f (x # xs) = Some y"
  by simp

lemma rev_upt_last: "a \<le> n \<Longrightarrow> rev [a..<Suc n] = n # rev [a..<n]"
  by simp

text \<open>
  The pattern against the Bearer form. For a secret that is not empty, does not begin with a
  space and has no line terminator, the pattern yields the secret on exactly the headers of
  the Bearer form that carry it.
\<close>

lemma bearerMatch_iff_carries:
  assumes "usable_secret secret"
  shows "bearerMatch h = Some secret \<longleftrightarrow> bearer_header_carries h secret"
proof
  assume "bearerMatch h = Some secret"
  from bearerMatch_SomeD [OF this]
  obtain i j where i: "i \<le> length (takeWhile is_js_space h)"
    and lit: "matches_Bearer (drop i h)"
    and j: "1 \<le> j" "j \<le> length (takeWhile is_js_space (drop 6 (drop i h)))"
    and tok: "secret = drop j (drop 6 (drop i h))"
    by blast
  have "\<not> i < length (takeWhile is_js_space h)"
    using inside_run [of i is_js_space h] matches_Bearer_head [OF lit] by blast
  then have i_eq: "i = length (takeWhile is_js_space h)"
    using i by simp
  then have s1: "drop i h = dropWhile is_js_space h"
    by (simp add: dropWhile_eq_drop)
  let ?after = "drop 6 (dropWhile is_js_space h)"
  have "\<not> j < length (takeWhile is_js_space ?after)"
    using inside_run [of j is_js_space ?after] assms tok s1 by (auto simp: usable_secret_def)
  then have j_eq: "j = length (takeWhile is_js_space ?after)"
    using j(2) s1 by simp
  then have sec: "dropWhile is_js_space ?after = secret"
    using tok s1 by (simp add: dropWhile_eq_drop)
  have run: "0 < length (takeWhile is_js_space ?after)"
    using j(1) j_eq by linarith
  have first: "?after \<noteq> [] \<and> is_js_space (hd ?after)"
    using inside_run [OF run] by simp
  have len: "length (take 6 (dropWhile is_js_space h)) = 6"
    using lit s1 by (auto simp: matches_Bearer_def dest: list_all2_lengthD)
  have "matches_Bearer (take 6 (dropWhile is_js_space h))"
    using lit s1 by (simp add: matches_Bearer_def)
  then have word: "map lower_char (take 6 (dropWhile is_js_space h)) = ''bearer''"
    using matches_Bearer_lower [OF len] by simp
  show "bearer_header_carries h secret"
    using word first sec by (simp add: bearer_header_carries_def Let_def)
next
  assume form: "bearer_header_carries h secret"
  let ?s1 = "dropWhile is_js_space h"
  let ?after = "drop 6 ?s1"
  from form
  have word: "map lower_char (take 6 ?s1) = ''bearer''"
    and first: "?after \<noteq> []" "is_js_space (hd ?after)"
    and sec: "dropWhile is_js_space ?after = secret"
    by (simp_all add: bearer_header_carries_def Let_def)
  have "length (map lower_char (take 6 ?s1)) = 6"
    unfolding word by simp
  then have len: "length (take 6 ?s1) = 6"
    by simp
  have "matches_Bearer (take 6 ?s1)"
    using matches_Bearer_lower [OF len] word by simp
  then have lit: "matches_Bearer ?s1"
    by (simp add: matches_Bearer_def)
  have run: "1 \<le> length (takeWhile is_js_space ?after)"
    using first by (cases ?after) auto
  have good: "secret \<noteq> [] \<and> list_all (\<lambda>c. \<not> is_line_terminator c) secret"
    using assms by (simp add: usable_secret_def)
  have cut: "drop (length (takeWhile is_js_space ?after)) ?after = secret"
    using sec by (simp only: dropWhile_eq_drop [symmetric])
  have rest: "bearer_rest ?after = Some secret"
    unfolding bearer_rest_def rev_upt_last [OF run]
  proof (rule first_some_head)
    show "(let g = drop (length (takeWhile is_js_space ?after)) ?after
           in if g \<noteq> [] \<and> list_all (\<lambda>c. \<not> is_line_terminator c) g then Some g else None) =
          Some secret"
      unfolding Let_def cut using good by simp
  qed
  have start: "drop (length (takeWhile is_js_space h)) h = ?s1"
    by (simp only: dropWhile_eq_drop [symmetric])
  show "bearerMatch h = Some secret"
    unfolding bearerMatch_def rev_upt_last [OF le0]
  proof (rule first_some_head)
    show "(let s1 = drop (length (takeWhile is_js_space h)) h
           in if matches_Bearer s1 then bearer_rest (drop 6 s1) else None) = Some secret"
      unfolding Let_def start using lit rest by simp
  qed
qed

lemma bearer_token_iff_carries:
  assumes "usable_secret secret"
  shows "bearer_token h = Some secret \<longleftrightarrow>
           (case h of None \<Rightarrow> False | Some v \<Rightarrow> bearer_header_carries v secret)"
  using bearerMatch_iff_carries [OF assms] by (cases h) (simp_all add: bearer_token_def)

text \<open>The plain header, \<^verbatim>\<open>Bearer\<close>, one space and the secret, is of the Bearer form.\<close>

lemma plain_bearer_header_carries:
  assumes "usable_secret secret"
  shows "bearer_header_carries (''Bearer '' @ secret) secret"
  using bearerMatch_canonical [of secret] bearerMatch_iff_carries [OF assms] assms
  by (simp add: usable_secret_def)

lemma validateApiKey_iff:
  assumes "API_KEY config = Some secret" and "usable_secret secret"
  shows "validateApiKey request config \<longleftrightarrow> carries_secret (headers request) secret"
  using assms bearer_token_iff_carries [OF assms(2), of "headers request ''authorization''"]
  by (auto simp: validateApiKey_def carries_secret_def truthy_str_def usable_secret_def)

lemma mcp_auth_chain_iff:
  assumes "API_KEY config = Some secret" and "usable_secret secret"
  shows "mcp_auth_chain config hdrs = None \<longleftrightarrow> carries_secret hdrs secret"
  using assms bearer_token_iff_carries [OF assms(2), of "hdrs ''authorization''"]
  by (auto simp: mcp_auth_chain_def requireAuth_def replicateAuthMiddleware_def carries_secret_def
      truthy_str_def usable_secret_def Let_def)

lemma mcp_auth_chain_reject:
  "mcp_auth_chain config hdrs \<noteq> None \<Longrightarrow>
     mcp_auth_chain config hdrs =
       Some \<lparr>resp_status = 401, resp_body = JsonRpc unauthorized_payload, mcp_session_id = None\<rparr>"
  by (simp add: mcp_auth_chain_def requireAuth_def split: if_splits)

lemma handleMcpRequest_unauthorized:
  "\<not> validateApiKey request config \<Longrightarrow>
     handleMcpRequest notify dispatch uuid request config st =
       (Inr \<lparr>resp_status = 401, resp_body = JsonRpc unauthorized_payload, mcp_session_id = None\<rparr>, st)"
  by (simp add: handleMcpRequest_def jsonResponse_def)

text \<open>
  C4, as amended. With a secret configured that is not empty, does not begin with a space
  and has no line terminator, a request is accepted exactly when it carries the secret:
  its \<^verbatim>\<open>Authorization\<close> header is of the Bearer form (the word \<^verbatim>\<open>Bearer\<close> in any letter
  case, spaces, then the secret; the plain \<^verbatim>\<open>Bearer <secret>\<close> is of this form), or its
  \<^verbatim>\<open>X-Api-Key\<close> header is the secret. So decides \<^verbatim>\<open>validateApiKey\<close> of the Workers
  handler, and so decide the two middlewares in front of \<^verbatim>\<open>/mcp\<close> on the Node server. A
  request that does not carry the secret is answered by both with HTTP 401 and the JSON-RPC
  error -32001 (id null), and nothing else happens. With no secret configured every request
  is accepted.
\<close>

theorem api_key_check:
  "(API_KEY config = Some secret \<and> usable_secret secret \<longrightarrow>
      (validateApiKey request config \<longleftrightarrow> carries_secret (headers request) secret) \<and>
      ((mcp_auth_chain config (headers request) :: 'r http_response option) = None
         \<longleftrightarrow> carries_secret (headers request) secret) \<and>
      (headers request ''authorization'' = Some (''Bearer '' @ secret) \<longrightarrow>
         carries_secret (headers request) secret) \<and>
      (\<not> carries_secret (headers request) secret \<longrightarrow>
         handleMcpRequest notify dispatch uuid request config st =
           (Inr (\<lparr>resp_status = 401, resp_body = JsonRpc unauthorized_payload,
                  mcp_session_id = None\<rparr> :: 'r http_response), st) \<and>
         mcp_auth_chain config (headers request) =
           Some (\<lparr>resp_status = 401, resp_body = JsonRpc unauthorized_payload,
                  mcp_session_id = None\<rparr> :: 'r http_response))) \<and>
   (\<not> truthy_str (API_KEY config) \<longrightarrow>
      validateApiKey request config \<and>
      (mcp_auth_chain config (headers request) :: 'r http_response option) = None) \<and>
   p_error unauthorized_payload =
     Some \<lparr>err_code = -32001, err_message = ''Unauthorized: Invalid or missing API key''\<rparr> \<and>
   p_id unauthorized_payload = JNull"
proof (intro conjI impI)
  assume cfg: "API_KEY config = Some secret \<and> usable_secret secret"
  show w: "validateApiKey request config \<longleftrightarrow> carries_secret (headers request) secret"
    using cfg by (simp add: validateApiKey_iff)
  show n: "(mcp_auth_chain config (headers request) :: 'r http_response option) = None
      \<longleftrightarrow> carries_secret (headers request) secret"
    using cfg by (simp add: mcp_auth_chain_iff)
  {
    assume "headers request ''authorization'' = Some (''Bearer '' @ secret)"
    then show "carries_secret (headers request) secret"
      using cfg plain_bearer_header_carries [of secret] by (simp add: carries_secret_def)
  }
  assume no: "\<not> carries_secret (headers request) secret"
  show "handleMcpRequest notify dispatch uuid request config st =
      (Inr (\<lparr>resp_status = 401, resp_body = JsonRpc unauthorized_payload,
             mcp_session_id = None\<rparr> :: 'r http_response), st)"
    using no w by (simp add: handleMcpRequest_unauthorized)
  show "mcp_auth_chain config (headers request) =
      Some (\<lparr>resp_status = 401, resp_body = JsonRpc unauthorized_payload,
             mcp_session_id = None\<rparr> :: 'r http_response)"
    using no n mcp_auth_chain_reject [of config "headers request"] by simp
next
  assume "\<not> truthy_str (API_KEY config)"
  then show "validateApiKey request config"
    by (simp add: validateApiKey_def)
next
  assume "\<not> truthy_str (API_KEY config)"
  then show "(mcp_auth_chain config (headers request) :: 'r http_response option) = None"
    by (simp add: mcp_auth_chain_def requireAuth_def replicateAuthMiddleware_def)
next
  show "p_error unauthorized_payload =
      Some \<lparr>err_code = -32001, err_message = ''Unauthorized: Invalid or missing API key''\<rparr>"
    by (simp add: unauthorized_payload_def)
next
  show "p_id unauthorized_payload = JNull"
    by (simp add: unauthorized_payload_def)
qed

theorem api_key_check_witness:
  "usable_secret ''s3cret'' \<and>
   carries_secret (headers (example_request [(''authorization'', ''bearer   s3cret'')] None)) ''s3cret'' \<and>
   validateApiKey (example_request [(''authorization'', ''bearer   s3cret'')] None) example_config \<and>
   (mcp_auth_chain example_config
      (headers (example_request [(''authorization'', ''bearer   s3cret'')] None))
      :: unit http_response option) = None \<and>
   validateApiKey (example_request [(''authorization'', ''Bearer s3cret'')] None) example_config \<and>
   \<not> carries_secret (headers (example_request [(''authorization'', ''Digest s3cret'')] None))
       ''s3cret'' \<and>
   handleMcpRequest example_notify example_dispatch ''uuid-1''
       (example_request [(''authorization'', ''Digest s3cret'')] None) example_config
       fresh_workers_state =
     (Inr (\<lparr>resp_status = 401, resp_body = JsonRpc unauthorized_payload,
            mcp_session_id = None\<rparr> :: unit http_response), fresh_workers_state) \<and>
   (mcp_auth_chain example_config
      (headers (example_request [(''authorization'', ''Digest s3cret'')] None))
      :: unit http_response option) =
     Some \<lparr>resp_status = 401, resp_body = JsonRpc unauthorized_payload, mcp_session_id = None\<rparr> \<and>
   validateApiKey (example_request [] None) open_config \<and>
   (mcp_auth_chain open_config (headers (example_request [] None)) :: unit http_response option) = None"
proof -
  let ?good = "example_request [(''authorization'', ''bearer   s3cret'')] None"
  let ?plain = "example_request [(''authorization'', ''Bearer s3cret'')] None"
  let ?bad = "example_request [(''authorization'', ''Digest s3cret'')] None"
  have usable: "usable_secret ''s3cret''"
    by (simp add: usable_secret_def is_js_space_def is_line_terminator_def)
  have cfg: "API_KEY example_config = Some ''s3cret'' \<and> usable_secret ''s3cret''"
    using usable by (simp add: example_config_def)
  have yes: "carries_secret (headers ?good) ''s3cret''"
    by (simp add: carries_secret_def example_request_def bearer_header_carries_def Let_def
        is_js_space_def lower_char_def)
  have plain: "headers ?plain ''authorization'' = Some (''Bearer '' @ ''s3cret'')"
    by (simp add: example_request_def)
  have no: "\<not> carries_secret (headers ?bad) ''s3cret''"
    by (simp add: carries_secret_def example_request_def bearer_header_carries_def Let_def
        is_js_space_def lower_char_def)
  have off: "\<not> truthy_str (API_KEY open_config)"
    by (simp add: open_config_def truthy_str_def)
  note spec = api_key_check [where 'r = unit]
  from spec [of example_config "''s3cret''" ?good] cfg yes
  have a: "validateApiKey ?good example_config \<and>
      (mcp_auth_chain example_config (headers ?good) :: unit http_response option) = None"
    by blast
  from spec [of example_config "''s3cret''" ?plain] cfg plain
  have p: "validateApiKey ?plain example_config"
    by blast
  from spec [of example_config "''s3cret''" ?bad example_notify example_dispatch "''uuid-1''"
      fresh_workers_state] cfg no
  have b: "handleMcpRequest example_notify example_dispatch ''uuid-1'' ?bad example_config
        fresh_workers_state =
      (Inr (\<lparr>resp_status = 401, resp_body = JsonRpc unauthorized_payload,
             mcp_session_id = None\<rparr> :: unit http_response), fresh_workers_state) \<and>
      (mcp_auth_chain example_config (headers ?bad) :: unit http_response option) =
      Some \<lparr>resp_status = 401, resp_body = JsonRpc unauthorized_payload, mcp_session_id = None\<rparr>"
    by blast
  from spec [of open_config _ "example_request [] None"] off
  have c: "validateApiKey (example_request [] None) open_config \<and>
      (mcp_auth_chain open_config (headers (example_request [] None)) :: unit http_response option) = None"
    by blast
  show ?thesis
    using usable yes no a p b c by simp
qed

text \<open>
  C4 as the specification states it holds for every configured secret. A secret that begins
  with a space is not accepted in a Bearer header: the pattern takes the space for part of
  the separator, so the request with \<^verbatim>\<open>Authorization: Bearer\<close>, a space and the secret is
  turned away with 401 by both runtimes.
\<close>

theorem api_key_check_counterexample:
  "API_KEY (example_config\<lparr>API_KEY := Some '' s3cret''\<rparr>) = Some '' s3cret'' \<and>
   headers (example_request [(''authorization'', ''Bearer '' @ '' s3cret'')] None) ''authorization'' =
     Some (''Bearer '' @ '' s3cret'') \<and>
   \<not> validateApiKey (example_request [(''authorization'', ''Bearer '' @ '' s3cret'')] None)
       (example_config\<lparr>API_KEY := Some '' s3cret''\<rparr>) \<and>
   (mcp_auth_chain (example_config\<lparr>API_KEY := Some '' s3cret''\<rparr>)
      (headers (example_request [(''authorization'', ''Bearer '' @ '' s3cret'')] None))
      :: unit http_response option) =
     Some \<lparr>resp_status = 401, resp_body = JsonRpc unauthorized_payload, mcp_session_id = None\<rparr>"
proof -
  have tok: "bearerMatch ''Bearer  s3cret'' = Some ''s3cret''"
    by (simp add: bearerMatch_def bearer_rest_def matches_Bearer_def is_js_space_def
        is_line_terminator_def Let_def upt_rec)
  show ?thesis
    by (simp add: validateApiKey_def mcp_auth_chain_def requireAuth_def
        replicateAuthMiddleware_def example_request_def example_config_def truthy_str_def
        bearer_token_def tok Let_def)
qed

section \<open>Properties of the Workers endpoint\<close>

lemma js_in_object: "js_in k (JObj kvs) = Inr (map_of kvs k \<noteq> None)"
  by (simp add: map_of_eq_None_iff)

text \<open>The body as the handler reads it, and the id it carries (if any).\<close>

lemma handleMcpRequest_object:
  assumes "validateApiKey request config"
    and "(case json_body request of None \<Rightarrow> JObj [] | Some b \<Rightarrow> b) = JObj kvs"
  shows "handleMcpRequest notify dispatch uuid request config st =
    (let sid = (case headers request ''mcp-session-id'' of
                  None \<Rightarrow> uuid
                | Some h \<Rightarrow> if js_trim h \<noteq> [] then js_trim h else uuid);
         dispatchContext =
           \<lparr>dc_sessionId = sid, dc_replicateToken = REPLICATE_API_TOKEN config,
            dc_title = MCP_TITLE config, dc_version = MCP_VERSION config\<rparr>;
         st1 = getCancellationRegistry sid st
     in case map_of kvs ''id'' of
          None \<Rightarrow> notification_branch notify (map_of kvs ''method'') (map_of kvs ''params'')
                    dispatchContext st1
        | Some i \<Rightarrow>
            if i = JNull
            then notification_branch notify (map_of kvs ''method'') (map_of kvs ''params'')
                   dispatchContext st1
            else request_branch dispatch (map_of kvs ''method'') (map_of kvs ''params'')
                   dispatchContext i st1)"
  using assms
  by (simp add: handleMcpRequest_def Let_def js_in_object del: js_in.simps split: option.splits)

text \<open>
  C9. In the Workers handler, an authenticated POST whose body is not valid JSON is handled
  as the empty object, hence as a notification without a method: the response is HTTP 202
  with no body and no session header, neither the notification handler nor the dispatcher is
  called (the dispatcher's state is untouched), and the only effect is that the session
  named by the header (or a fresh one) gets its cancellation registry. No JSON-RPC error
  is returned.
\<close>

theorem malformed_body_is_notification:
  assumes "validateApiKey request config" and "json_body request = None"
  shows "fst (handleMcpRequest notify dispatch uuid request config st) =
           Inr \<lparr>resp_status = 202, resp_body = NoBody, mcp_session_id = None\<rparr> \<and>
         world (snd (handleMcpRequest notify dispatch uuid request config st)) = world st \<and>
         handleMcpRequest notify dispatch uuid request config st =
           handleMcpRequest notify dispatch uuid (request\<lparr>json_body := Some (JObj [])\<rparr>) config st"
proof -
  have same_key: "validateApiKey (request\<lparr>json_body := Some (JObj [])\<rparr>) config"
    using assms(1) by (simp add: validateApiKey_def split: if_splits)
  have a: "(case json_body request of None \<Rightarrow> JObj [] | Some b \<Rightarrow> b) = JObj []"
    using assms(2) by simp
  have b: "(case json_body (request\<lparr>json_body := Some (JObj [])\<rparr>) of
              None \<Rightarrow> JObj [] | Some b \<Rightarrow> b) = JObj []"
    by simp
  note run = handleMcpRequest_object [OF assms(1) a, of notify dispatch uuid st]
  note run' = handleMcpRequest_object [OF same_key b, of notify dispatch uuid st]
  show ?thesis
    unfolding run run'
    by (simp add: Let_def notification_branch_def getCancellationRegistry_def)
qed

theorem malformed_body_is_notification_witness:
  "validateApiKey (example_request [(''x-api-key'', ''s3cret'')] None) example_config \<and>
   json_body (example_request [(''x-api-key'', ''s3cret'')] None) = None \<and>
   fst (handleMcpRequest example_notify example_dispatch ''uuid-1''
          (example_request [(''x-api-key'', ''s3cret'')] None) example_config fresh_workers_state) =
     Inr (\<lparr>resp_status = 202, resp_body = NoBody, mcp_session_id = None\<rparr> :: unit http_response) \<and>
   world (snd (handleMcpRequest example_notify example_dispatch ''uuid-1''
          (example_request [(''x-api-key'', ''s3cret'')] None) example_config fresh_workers_state
          :: (js_error + unit http_response) \<times> nat workers_state)) = 0"
proof -
  let ?req = "example_request [(''x-api-key'', ''s3cret'')] None"
  have key: "validateApiKey ?req example_config"
    by (simp add: validateApiKey_def example_request_def example_config_def truthy_str_def)
  have bad: "json_body ?req = None"
    by (simp add: example_request_def)
  from malformed_body_is_notification [OF key bad, of example_notify example_dispatch "''uuid-1''"
      fresh_workers_state]
  have "fst (handleMcpRequest example_notify example_dispatch ''uuid-1'' ?req example_config
          fresh_workers_state) =
      Inr (\<lparr>resp_status = 202, resp_body = NoBody, mcp_session_id = None\<rparr> :: unit http_response) \<and>
    world (snd (handleMcpRequest example_notify example_dispatch ''uuid-1'' ?req example_config
          fresh_workers_state :: (js_error + unit http_response) \<times> nat workers_state)) =
      world fresh_workers_state"
    by blast
  then show ?thesis
    using key bad by (simp add: fresh_workers_state_def)
qed

lemma handleMcpRequest_unparsable:
  assumes "validateApiKey request config" and "json_body request = None"
  shows "fst (handleMcpRequest notify dispatch uuid request config st) =
           Inr \<lparr>resp_status = 202, resp_body = NoBody, mcp_session_id = None\<rparr>"
proof -
  have "(case json_body request of None \<Rightarrow> JObj [] | Some b \<Rightarrow> b) = JObj []"
    using assms(2) by simp
  note run = handleMcpRequest_object [OF assms(1) this, of notify dispatch uuid st]
  show ?thesis
    unfolding run by (simp add: Let_def notification_branch_def)
qed

lemma handleMcpRequest_array:
  assumes "validateApiKey request config" and "json_body request = Some (JArr xs)"
  shows "fst (handleMcpRequest notify dispatch uuid request config st) =
           Inr \<lparr>resp_status = 202, resp_body = NoBody, mcp_session_id = None\<rparr>"
  using assms by (simp add: handleMcpRequest_def Let_def notification_branch_def)

lemma notification_branch_response:
  "fst (notification_branch notify meth params dispatchContext st) =
     Inr \<lparr>resp_status = 202, resp_body = NoBody, mcp_session_id = None\<rparr>"
  by (simp add: notification_branch_def)

lemma request_branch_response:
  assumes "dr_error (fst (dispatch meth params dispatchContext i (world st))) \<noteq> None \<or>
           dr_result (fst (dispatch meth params dispatchContext i (world st))) \<noteq> None"
  shows "\<exists>payload. fst (request_branch dispatch meth params dispatchContext i st) =
           Inr \<lparr>resp_status = 200, resp_body = JsonRpc payload,
                mcp_session_id = Some (dc_sessionId dispatchContext)\<rparr> \<and>
           p_id payload = i \<and> (p_error payload = None) \<noteq> (p_result payload = None)"
  using assms
  by (cases "dispatch meth params dispatchContext i (world st)")
    (auto simp: request_branch_def jsonResponse_def)

text \<open>
  A body that is the JSON text \<^verbatim>\<open>null\<close>, a number, a string or a boolean makes the handler
  throw a TypeError.
\<close>

lemma handleMcpRequest_primitive_body:
  assumes "validateApiKey request config" and "\<not> readable_body (json_body request)"
  shows "fst (handleMcpRequest notify dispatch uuid request config st) = Inl TypeError"
proof -
  obtain b where b: "json_body request = Some b"
    using assms(2) by (cases "json_body request") auto
  show ?thesis
    using assms b by (cases b) (simp_all add: handleMcpRequest_def Let_def)
qed

text \<open>
  C2, as amended. For every POST that passes the API-key check and whose body is a JSON
  object, a JSON array or not valid JSON, given a dispatcher that yields a result or an error:
  if the body carries an \<open>id\<close> that is not null (0 included), the caller receives one
  JSON-RPC response, HTTP 200, with that same id and with either a result or an error, not
  both; if the body has no \<open>id\<close>, or the id is null, the response is HTTP 202 with an
  empty body.
\<close>

theorem request_or_notification:
  assumes "validateApiKey request config"
    and "readable_body (json_body request)"
    and "\<forall>m p c i w. dr_error (fst (dispatch m p c i w)) \<noteq> None \<or>
                      dr_result (fst (dispatch m p c i w)) \<noteq> None"
  shows "let response = fst (handleMcpRequest notify dispatch uuid request config st
                             :: (js_error + 'r http_response) \<times> 'w workers_state)
         in case request_id_of request of
              None \<Rightarrow>
                response = Inr \<lparr>resp_status = 202, resp_body = NoBody, mcp_session_id = None\<rparr>
            | Some i \<Rightarrow>
                if i = JNull
                then response = Inr \<lparr>resp_status = 202, resp_body = NoBody, mcp_session_id = None\<rparr>
                else (\<exists>payload sid.
                        response = Inr \<lparr>resp_status = 200, resp_body = JsonRpc payload,
                                        mcp_session_id = Some sid\<rparr> \<and>
                        p_id payload = i \<and>
                        (p_error payload = None) \<noteq> (p_result payload = None))"
proof (cases "json_body request")
  case None
  then show ?thesis
    using handleMcpRequest_unparsable [OF assms(1) None, of notify dispatch uuid st]
    by (simp add: request_id_of_def Let_def)
next
  case (Some b)
  show ?thesis
  proof (cases b)
    case (JObj kvs)
    have shape: "(case json_body request of None \<Rightarrow> JObj [] | Some b \<Rightarrow> b) = JObj kvs"
      using Some JObj by simp
    have rid: "request_id_of request = map_of kvs ''id''"
      using Some JObj by (simp add: request_id_of_def)
    note run = handleMcpRequest_object [OF assms(1) shape, of notify dispatch uuid st]
    show ?thesis
    proof (cases "map_of kvs ''id''")
      case None
      then show ?thesis
        unfolding rid run by (simp add: Let_def notification_branch_response)
    next
      case found: (Some i)
      show ?thesis
      proof (cases "i = JNull")
        case True
        then show ?thesis
          unfolding rid run using found by (simp add: Let_def notification_branch_response)
      next
        case False
        let ?sid = "case headers request ''mcp-session-id'' of
                      None \<Rightarrow> uuid
                    | Some h \<Rightarrow> if js_trim h \<noteq> [] then js_trim h else uuid"
        let ?ctx = "\<lparr>dc_sessionId = ?sid, dc_replicateToken = REPLICATE_API_TOKEN config,
                     dc_title = MCP_TITLE config, dc_version = MCP_VERSION config\<rparr>"
        have "\<exists>payload.
            fst (request_branch dispatch (map_of kvs ''method'') (map_of kvs ''params'') ?ctx i
                   (getCancellationRegistry ?sid st)
                   :: (js_error + 'r http_response) \<times> 'w workers_state) =
              Inr \<lparr>resp_status = 200, resp_body = JsonRpc payload,
                   mcp_session_id = Some (dc_sessionId ?ctx)\<rparr> \<and>
            p_id payload = i \<and> (p_error payload = None) \<noteq> (p_result payload = None)"
          by (rule request_branch_response) (use assms(3) in blast)
        then obtain payload where
          p1: "fst (request_branch dispatch (map_of kvs ''method'') (map_of kvs ''params'') ?ctx i
                 (getCancellationRegistry ?sid st)
                 :: (js_error + 'r http_response) \<times> 'w workers_state) =
             Inr \<lparr>resp_status = 200, resp_body = JsonRpc payload,
                  mcp_session_id = Some (dc_sessionId ?ctx)\<rparr>"
          and p2: "p_id payload = i"
          and p3: "(p_error payload = None) \<noteq> (p_result payload = None)"
          by blast
        have resp: "fst (handleMcpRequest notify dispatch uuid request config st
                          :: (js_error + 'r http_response) \<times> 'w workers_state) =
            Inr \<lparr>resp_status = 200, resp_body = JsonRpc payload, mcp_session_id = Some ?sid\<rparr>"
          unfolding run using found False p1 by (simp add: Let_def)
        have "\<exists>payload sid.
            fst (handleMcpRequest notify dispatch uuid request config st
                   :: (js_error + 'r http_response) \<times> 'w workers_state) =
              Inr \<lparr>resp_status = 200, resp_body = JsonRpc payload, mcp_session_id = Some sid\<rparr> \<and>
            p_id payload = i \<and> (p_error payload = None) \<noteq> (p_result payload = None)"
          using resp p2 p3 by blast
        then show ?thesis
          unfolding rid found using False by (simp add: Let_def)
      qed
    qed
  next
    case (JArr xs)
    then show ?thesis
      using handleMcpRequest_array [OF assms(1), of xs notify dispatch uuid st] Some
      by (simp add: request_id_of_def Let_def)
  qed (use assms(2) Some in simp_all)
qed
theorem request_or_notification_witness:
  "validateApiKey (example_request [(''x-api-key'', ''s3cret'')] (Some (list_request_body (JNum 0))))
     example_config \<and>
   readable_body (Some (list_request_body (JNum 0))) \<and>
   (\<exists>payload sid.
      fst (handleMcpRequest example_notify example_dispatch ''uuid-1''
             (example_request [(''x-api-key'', ''s3cret'')] (Some (list_request_body (JNum 0))))
             example_config fresh_workers_state) =
        Inr (\<lparr>resp_status = 200, resp_body = JsonRpc payload, mcp_session_id = Some sid\<rparr>
             :: unit http_response) \<and>
      p_id payload = JNum 0 \<and> (p_error payload = None) \<noteq> (p_result payload = None)) \<and>
   fst (handleMcpRequest example_notify example_dispatch ''uuid-1''
          (example_request [(''x-api-key'', ''s3cret'')] (Some initialized_notification_body))
          example_config fresh_workers_state) =
     Inr (\<lparr>resp_status = 202, resp_body = NoBody, mcp_session_id = None\<rparr> :: unit http_response) \<and>
   fst (handleMcpRequest example_notify example_dispatch ''uuid-1''
          (example_request [(''x-api-key'', ''s3cret'')] (Some (list_request_body JNull)))
          example_config fresh_workers_state) =
     Inr (\<lparr>resp_status = 202, resp_body = NoBody, mcp_session_id = None\<rparr> :: unit http_response)"
proof -
  let ?hs = "[(''x-api-key'', ''s3cret'')]"
  have key: "\<And>b. validateApiKey (example_request ?hs b) example_config"
    by (simp add: validateApiKey_def example_request_def example_config_def truthy_str_def)
  have shape: "readable_body (json_body (example_request ?hs (Some (list_request_body i))))"
    "readable_body (json_body (example_request ?hs (Some initialized_notification_body)))" for i
    by (simp_all add: example_request_def list_request_body_def initialized_notification_body_def)
  have disp: "\<forall>m p c i w. dr_error (fst (example_dispatch m p c i w)) \<noteq> None \<or>
                          dr_result (fst (example_dispatch m p c i w)) \<noteq> None"
    by (simp add: example_dispatch_def)
  have ids: "request_id_of (example_request ?hs (Some (list_request_body i))) = Some i"
    "request_id_of (example_request ?hs (Some initialized_notification_body)) = None" for i
    by (simp_all add: request_id_of_def example_request_def list_request_body_def
        initialized_notification_body_def)
  note spec = request_or_notification [OF key _ disp, of _ example_notify "''uuid-1''"
      fresh_workers_state, where 'r = unit]
  have a: "\<exists>payload sid.
      fst (handleMcpRequest example_notify example_dispatch ''uuid-1''
             (example_request ?hs (Some (list_request_body (JNum 0))))
             example_config fresh_workers_state) =
        Inr (\<lparr>resp_status = 200, resp_body = JsonRpc payload, mcp_session_id = Some sid\<rparr>
             :: unit http_response) \<and>
      p_id payload = JNum 0 \<and> (p_error payload = None) \<noteq> (p_result payload = None)"
    using spec [OF shape(1) [of "JNum 0"]] by (simp add: ids Let_def)
  have b: "fst (handleMcpRequest example_notify example_dispatch ''uuid-1''
          (example_request ?hs (Some initialized_notification_body))
          example_config fresh_workers_state) =
     Inr (\<lparr>resp_status = 202, resp_body = NoBody, mcp_session_id = None\<rparr> :: unit http_response)"
    using spec [OF shape(2)] by (simp add: ids Let_def)
  have c: "fst (handleMcpRequest example_notify example_dispatch ''uuid-1''
          (example_request ?hs (Some (list_request_body JNull)))
          example_config fresh_workers_state) =
     Inr (\<lparr>resp_status = 202, resp_body = NoBody, mcp_session_id = None\<rparr> :: unit http_response)"
    using spec [OF shape(1) [of JNull]] by (simp add: ids Let_def)
  show ?thesis
    using key shape(1) [of "JNum 0"] a b c by (simp add: example_request_def)
qed

text \<open>
  C2 as the specification states it speaks of every POST. A POST that fails the API-key
  check is answered with HTTP 401 and a JSON-RPC error whose id is null, whatever id the
  body carries, and also when the body carries none.
\<close>

theorem request_or_notification_counterexample:
  "fst (handleMcpRequest example_notify example_dispatch ''uuid-1''
          (example_request [] (Some (list_request_body (JNum 5)))) example_config
          fresh_workers_state) =
     Inr (\<lparr>resp_status = 401, resp_body = JsonRpc unauthorized_payload, mcp_session_id = None\<rparr>
          :: unit http_response) \<and>
   request_id_of (example_request [] (Some (list_request_body (JNum 5)))) = Some (JNum 5) \<and>
   p_id unauthorized_payload \<noteq> JNum 5 \<and>
   request_id_of (example_request [] (Some initialized_notification_body)) = None \<and>
   fst (handleMcpRequest example_notify example_dispatch ''uuid-1''
          (example_request [] (Some initialized_notification_body)) example_config
          fresh_workers_state) \<noteq>
     Inr (\<lparr>resp_status = 202, resp_body = NoBody, mcp_session_id = None\<rparr> :: unit http_response)"
  by (simp add: handleMcpRequest_def validateApiKey_def example_request_def example_config_def
      truthy_str_def bearer_token_def jsonResponse_def unauthorized_payload_def request_id_of_def
      list_request_body_def initialized_notification_body_def)

section \<open>Properties of the Node POST route\<close>

lemma isInitialize_iff:
  "(case body of None \<Rightarrow> False
    | Some b \<Rightarrow> truthy b \<and> js_prop b ''method'' = Some (JStr ''initialize'')) \<longleftrightarrow>
   (case body of None \<Rightarrow> None | Some b \<Rightarrow> js_prop b ''method'') = Some (JStr ''initialize'')"
proof (cases body)
  case None
  then show ?thesis by simp
next
  case (Some b)
  then show ?thesis by (cases b) simp_all
qed

text \<open>
  A session-id header whose value is empty counts as absent: the route creates a new
  transport, connects it and hands the request to it.
\<close>

lemma empty_session_header_is_absent:
  "headers (example_request [(''mcp-session-id'', [])] (Some (list_request_body (JNum 1))))
     ''mcp-session-id'' = Some [] \<and>
   fst (mcp_post connect_resolves example_handleRequest ''uuid-1'' 1000 (Some example_auth)
          (example_request [(''mcp-session-id'', [])] (Some (list_request_body (JNum 1))))
          fresh_node_state) =
     \<lparr>resp_status = 200, resp_body = Written (), mcp_session_id = None\<rparr> \<and>
   next_transport
     (snd (mcp_post connect_resolves example_handleRequest ''uuid-1'' 1000 (Some example_auth)
             (example_request [(''mcp-session-id'', [])] (Some (list_request_body (JNum 1))))
             fresh_node_state)) = 1 \<and>
   connect_calls
     (snd (mcp_post connect_resolves example_handleRequest ''uuid-1'' 1000 (Some example_auth)
             (example_request [(''mcp-session-id'', [])] (Some (list_request_body (JNum 1))))
             fresh_node_state)) = [(0, True)]"
  by (simp add: mcp_post_def Let_def truthy_str_def example_request_def list_request_body_def
      fresh_node_state_def request_method_of_def ensureConnected_def connect_resolves_def
      example_handleRequest_def post_create_context_def ContextRegistry_create_def
      empty_registry_def truthy_opt_def example_auth_def)

lemma mcp_post_stale:
  assumes "headers request ''mcp-session-id'' = Some sid"
    and "sid \<noteq> []"
    and "map_of (transports st) sid = None"
    and "request_method_of request \<noteq> Some (JStr ''initialize'')"
  shows "mcp_post connect handleRequest uuid now replicateAuth request st =
           (\<lparr>resp_status = 400, resp_body = JsonRpc (invalid_session_payload (json_body request)),
             mcp_session_id = None\<rparr>, st)"
proof -
  have not_init: "\<not> (case json_body request of None \<Rightarrow> False
      | Some b \<Rightarrow> truthy b \<and> js_prop b ''method'' = Some (JStr ''initialize''))"
    using assms(4) unfolding isInitialize_iff request_method_of_def by simp
  show ?thesis
    using assms(1-3) not_init
    by (simp add: mcp_post_def Let_def truthy_str_def invalid_session_payload_def)
qed

lemma buildHttpApp_post_mcp_authenticated:
  "authenticated (replicateAuthMiddleware config (headers request)) \<Longrightarrow>
     buildHttpApp_post_mcp config connect handleRequest uuid now request st =
       mcp_post connect handleRequest uuid now
         (Some (replicateAuthMiddleware config (headers request))) request st"
  by (simp add: buildHttpApp_post_mcp_def requireAuth_def Let_def)

lemma buildHttpApp_post_mcp_unauthenticated:
  "\<not> authenticated (replicateAuthMiddleware config (headers request)) \<Longrightarrow>
     buildHttpApp_post_mcp config connect handleRequest uuid now request st =
       (\<lparr>resp_status = 401, resp_body = JsonRpc unauthorized_payload, mcp_session_id = None\<rparr>, st)"
  by (simp add: buildHttpApp_post_mcp_def requireAuth_def Let_def)

text \<open>
  C3, as amended. Take a POST to \<^verbatim>\<open>/mcp\<close> whose method is not \<open>initialize\<close> and that
  carries a session id (a session-id header with a non-empty value) for which the session
  map holds no transport. If the request passes the API-key check, the server answers
  HTTP 400 with the JSON-RPC error -32600 "Invalid session. Please re-initialize.". If it
  does not pass the check, the server answers HTTP 401 with the JSON-RPC error -32001,
  before the session id is looked at. In both cases the state is left as it was: no
  transport is created, nothing is stored in the session map, no context is registered and
  nothing is connected. The route itself, whatever auth context it is given, answers 400.
\<close>

theorem stale_session_rejected:
  assumes "headers request ''mcp-session-id'' = Some sid"
    and "sid \<noteq> []"
    and "map_of (transports st) sid = None"
    and "request_method_of request \<noteq> Some (JStr ''initialize'')"
  shows "mcp_post connect handleRequest uuid now replicateAuth request st =
           (\<lparr>resp_status = 400, resp_body = JsonRpc (invalid_session_payload (json_body request)),
             mcp_session_id = None\<rparr>, st) \<and>
         p_error (invalid_session_payload (json_body request)) =
           Some \<lparr>err_code = -32600, err_message = ''Invalid session. Please re-initialize.''\<rparr> \<and>
         (authenticated (replicateAuthMiddleware config (headers request)) \<longrightarrow>
            buildHttpApp_post_mcp config connect handleRequest uuid now request st =
              (\<lparr>resp_status = 400,
                resp_body = JsonRpc (invalid_session_payload (json_body request)),
                mcp_session_id = None\<rparr>, st)) \<and>
         (\<not> authenticated (replicateAuthMiddleware config (headers request)) \<longrightarrow>
            buildHttpApp_post_mcp config connect handleRequest uuid now request st =
              (\<lparr>resp_status = 401, resp_body = JsonRpc unauthorized_payload,
                mcp_session_id = None\<rparr>, st)) \<and>
         p_error unauthorized_payload =
           Some \<lparr>err_code = -32001, err_message = ''Unauthorized: Invalid or missing API key''\<rparr>"
proof (intro conjI impI)
  show "mcp_post connect handleRequest uuid now replicateAuth request st =
      (\<lparr>resp_status = 400, resp_body = JsonRpc (invalid_session_payload (json_body request)),
        mcp_session_id = None\<rparr>, st)"
    using assms by (rule mcp_post_stale)
  show "p_error (invalid_session_payload (json_body request)) =
      Some \<lparr>err_code = -32600, err_message = ''Invalid session. Please re-initialize.''\<rparr>"
    by (simp add: invalid_session_payload_def)
  show "p_error unauthorized_payload =
      Some \<lparr>err_code = -32001, err_message = ''Unauthorized: Invalid or missing API key''\<rparr>"
    by (simp add: unauthorized_payload_def)
next
  assume "authenticated (replicateAuthMiddleware config (headers request))"
  then show "buildHttpApp_post_mcp config connect handleRequest uuid now request st =
      (\<lparr>resp_status = 400, resp_body = JsonRpc (invalid_session_payload (json_body request)),
        mcp_session_id = None\<rparr>, st)"
    by (simp add: buildHttpApp_post_mcp_authenticated mcp_post_stale [OF assms])
next
  assume "\<not> authenticated (replicateAuthMiddleware config (headers request))"
  then show "buildHttpApp_post_mcp config connect handleRequest uuid now request st =
      (\<lparr>resp_status = 401, resp_body = JsonRpc unauthorized_payload, mcp_session_id = None\<rparr>, st)"
    by (rule buildHttpApp_post_mcp_unauthenticated)
qed

theorem stale_session_rejected_witness:
  "headers (example_request [(''mcp-session-id'', ''gone''), (''x-api-key'', ''s3cret'')]
              (Some (list_request_body (JNum 1))))
     ''mcp-session-id'' = Some ''gone'' \<and>
   ''gone'' \<noteq> [] \<and>
   map_of (transports fresh_node_state) ''gone'' = None \<and>
   request_method_of
     (example_request [(''mcp-session-id'', ''gone''), (''x-api-key'', ''s3cret'')]
        (Some (list_request_body (JNum 1)))) \<noteq>
     Some (JStr ''initialize'') \<and>
   authenticated (replicateAuthMiddleware example_config
     (headers (example_request [(''mcp-session-id'', ''gone''), (''x-api-key'', ''s3cret'')]
                 (Some (list_request_body (JNum 1)))))) \<and>
   buildHttpApp_post_mcp example_config connect_resolves example_handleRequest ''uuid-1'' 1000
       (example_request [(''mcp-session-id'', ''gone''), (''x-api-key'', ''s3cret'')]
          (Some (list_request_body (JNum 1))))
       fresh_node_state =
     (\<lparr>resp_status = 400,
       resp_body = JsonRpc
         \<lparr>p_error = Some \<lparr>err_code = -32600, err_message = ''Invalid session. Please re-initialize.''\<rparr>,
          p_result = None, p_id = JNum 1\<rparr>,
       mcp_session_id = None\<rparr>, fresh_node_state) \<and>
   mcp_post connect_resolves example_handleRequest ''uuid-1'' 1000 (Some example_auth)
       (example_request [(''mcp-session-id'', ''gone''), (''x-api-key'', ''s3cret'')]
          (Some (list_request_body (JNum 1))))
       fresh_node_state =
     (\<lparr>resp_status = 400,
       resp_body = JsonRpc
         \<lparr>p_error = Some \<lparr>err_code = -32600, err_message = ''Invalid session. Please re-initialize.''\<rparr>,
          p_result = None, p_id = JNum 1\<rparr>,
       mcp_session_id = None\<rparr>, fresh_node_state)"
proof -
  let ?req = "example_request [(''mcp-session-id'', ''gone''), (''x-api-key'', ''s3cret'')]
      (Some (list_request_body (JNum 1)))"
  have h: "headers ?req ''mcp-session-id'' = Some ''gone''"
    by (simp add: example_request_def)
  have ne: "''gone'' \<noteq> []"
    by simp
  have m: "map_of (transports fresh_node_state) ''gone'' = None"
    by (simp add: fresh_node_state_def)
  have meth: "request_method_of ?req \<noteq> Some (JStr ''initialize'')"
    by (simp add: request_method_of_def example_request_def list_request_body_def)
  have auth: "authenticated (replicateAuthMiddleware example_config (headers ?req))"
    by (simp add: replicateAuthMiddleware_def example_config_def example_request_def Let_def
        truthy_str_def)
  have payload: "invalid_session_payload (json_body ?req) =
      \<lparr>p_error = Some \<lparr>err_code = -32600, err_message = ''Invalid session. Please re-initialize.''\<rparr>,
       p_result = None, p_id = JNum 1\<rparr>"
    by (simp add: invalid_session_payload_def example_request_def list_request_body_def)
  from stale_session_rejected [OF h ne m meth, of connect_resolves example_handleRequest
      "''uuid-1''" 1000 "Some example_auth" example_config]
  show ?thesis
    using h m meth auth by (simp add: payload)
qed

text \<open>
  C3 as the specification states it does not hold of a request that fails the API-key
  check: a POST of \<^verbatim>\<open>tools/list\<close> with the session id \<^verbatim>\<open>gone\<close>, unknown to the session
  map, and no API key is answered HTTP 401 with the error -32001, not with -32600.
\<close>

theorem stale_session_rejected_counterexample:
  "headers (example_request [(''mcp-session-id'', ''gone'')] (Some (list_request_body (JNum 1))))
     ''mcp-session-id'' = Some ''gone'' \<and>
   map_of (transports fresh_node_state) ''gone'' = None \<and>
   request_method_of
     (example_request [(''mcp-session-id'', ''gone'')] (Some (list_request_body (JNum 1)))) \<noteq>
     Some (JStr ''initialize'') \<and>
   buildHttpApp_post_mcp example_config connect_resolves example_handleRequest ''uuid-1'' 1000
       (example_request [(''mcp-session-id'', ''gone'')] (Some (list_request_body (JNum 1))))
       fresh_node_state =
     (\<lparr>resp_status = 401,
       resp_body = JsonRpc
         \<lparr>p_error = Some \<lparr>err_code = -32001,
                           err_message = ''Unauthorized: Invalid or missing API key''\<rparr>,
          p_result = None, p_id = JNull\<rparr>,
       mcp_session_id = None\<rparr>, fresh_node_state)"
  by (simp add: buildHttpApp_post_mcp_def requireAuth_def replicateAuthMiddleware_def Let_def
      example_config_def example_request_def truthy_str_def bearer_token_def
      unauthorized_payload_def fresh_node_state_def request_method_of_def list_request_body_def)

section \<open>The life of a request context\<close>

text \<open>
  For a truthy request id the POST route registers a context before the request is handed
  to the transport, the wrapped handler runs the tool on that very context with the
  registry unchanged, and the context is gone once the handler has returned or thrown.
\<close>

lemma post_create_context_truthy_id:
  assumes "map_of kvs ''id'' = Some i" and "truthy i"
  shows "ContextRegistry_get i (post_create_context (Some (JObj kvs)) sid auth now reg) =
           Some \<lparr>sessionId = sid, cancellationToken = next_token reg, requestId = Some i,
                 timestamp = now,
                 replicateToken = (case auth of None \<Rightarrow> None | Some a \<Rightarrow> auth_replicateToken a)\<rparr>"
proof -
  have "''id'' \<in> fst ` set kvs"
    using assms(1) by (metis map_of_eq_None_iff option.distinct(1))
  then show ?thesis
    using assms
    by (simp add: post_create_context_def truthy_opt_def ContextRegistry_get_def
        ContextRegistry_create_def Let_def update_conv')
qed

lemma wrapped_enter_registered:
  assumes "truthy i" and "ContextRegistry_get i reg = Some ctx"
  shows "wrapped_enter (Some i) now reg = (ctx, reg)"
  using assms by (simp add: wrapped_enter_def)

lemma wrapped_enter_unregistered:
  assumes "truthy i" and "ContextRegistry_get i reg = None"
  shows "ContextRegistry_get i (snd (wrapped_enter (Some i) now reg)) =
           Some (fst (wrapped_enter (Some i) now reg))"
  using assms by (simp add: wrapped_enter_def get_after_create)

lemma wrapped_handler_deletes:
  assumes "truthy i"
  shows "ContextRegistry_get i (snd (createWrappedHandler handler args (Some i) now reg)) = None"
  using assms
  by (simp add: createWrappedHandler_def truthy_opt_def get_after_delete split: prod.splits)

lemma wrapped_handler_outcome:
  "fst (createWrappedHandler handler args rid now reg) =
     handler args (fst (wrapped_enter rid now reg))"
  by (simp add: createWrappedHandler_def split: prod.splits)

text \<open>
  C1 at the request id 0. The body \<^verbatim>\<open>{jsonrpc: "2.0", id: 0, method: "tools/call", ...}\<close>
  carries an id, but 0 is falsy: the POST route registers no context for it, and the wrapped
  handler then runs the tool on a context of its own making, which is not in the registry
  and has no Replicate token, although the server has one configured.
\<close>

theorem no_context_for_id_zero:
  "js_in ''id'' (tools_call_body (JNum 0)) = Inr True \<and>
   post_create_context (Some (tools_call_body (JNum 0))) None (Some example_auth) 1000
     empty_registry = empty_registry \<and>
   ContextRegistry_get (JNum 0)
     (post_create_context (Some (tools_call_body (JNum 0))) None (Some example_auth) 1000
        empty_registry) = None \<and>
   ContextRegistry_get (JNum 0)
     (snd (wrapped_enter (Some (JNum 0)) 1001
        (post_create_context (Some (tools_call_body (JNum 0))) None (Some example_auth) 1000
           empty_registry))) = None \<and>
   replicateToken
     (fst (wrapped_enter (Some (JNum 0)) 1001
        (post_create_context (Some (tools_call_body (JNum 0))) None (Some example_auth) 1000
           empty_registry))) = None \<and>
   replicateToken
     (fst (wrapped_enter (Some (JNum 1)) 1001
        (post_create_context (Some (tools_call_body (JNum 1))) None (Some example_auth) 1000
           empty_registry))) = Some ''r8_token''"
  by (simp add: tools_call_body_def post_create_context_def truthy_opt_def wrapped_enter_def
      ContextRegistry_get_def ContextRegistry_create_def empty_registry_def example_auth_def
      Let_def)

section \<open>Properties of the tools\<close>







text \<open>
  C10. A \<open>generate_image\<close> call whose arguments satisfy the input schema, on a context
  that carries a non-empty Replicate token, but whose \<open>input\<close> has no truthy
  \<open>prompt\<close> and no truthy \<open>image\<close>, returns \<open>isError: true\<close> with the text that
  starts "## Missing Required Input", and makes no call to the upstream collaborator. The
  other members of \<open>input\<close>, \<open>image_input\<close> among them, play no part.
\<close>

theorem missing_prompt_and_image:
  assumes "GenerateImageInputSchema_safeParse args = Inr (model, input)"
    and "replicateToken c = Some tok" and "tok \<noteq> []"
    and "\<not> truthy_opt (map_of input ''prompt'')"
    and "\<not> truthy_opt (map_of input ''image'')"
  shows "generateImageTool_handler toFixed1 runPrediction args (Some c) =
           (\<lparr>isError = Some True, content = [missing_input_text model]\<rparr>, []) \<and>
         take 25 (missing_input_text model) = ''## Missing Required Input''"
  using assms by (simp add: generateImageTool_handler_def missing_input_text_def)

theorem missing_prompt_and_image_witness:
  "GenerateImageInputSchema_safeParse reference_images_args =
     Inr (''a/b'', [(''image_input'', JArr [JStr ''https://x/1.png''])]) \<and>
   replicateToken example_context = Some ''r8_token'' \<and>
   \<not> truthy_opt (map_of [(''image_input'', JArr [JStr ''https://x/1.png''])] ''prompt'') \<and>
   \<not> truthy_opt (map_of [(''image_input'', JArr [JStr ''https://x/1.png''])] ''image'') \<and>
   generateImageTool_handler example_toFixed1 example_runPrediction reference_images_args
       (Some example_context) =
     (\<lparr>isError = Some True, content = [missing_input_text ''a/b'']\<rparr>, [])"
proof -
  let ?input = "[(''image_input'', JArr [JStr ''https://x/1.png''])]"
  have parse: "GenerateImageInputSchema_safeParse reference_images_args = Inr (''a/b'', ?input)"
    by (simp add: reference_images_args_def GenerateImageInputSchema_safeParse_def
        GenerateImageInputSchema_issues_def model_issues_def input_issues_def
        unrecognized_keys_issues_def model_format_ok_def)
  have tok: "replicateToken example_context = Some ''r8_token''"
    by (simp add: example_context_def)
  have ne: "''r8_token'' \<noteq> []"
    by simp
  have np: "\<not> truthy_opt (map_of ?input ''prompt'')"
    by (simp add: truthy_opt_def)
  have ni: "\<not> truthy_opt (map_of ?input ''image'')"
    by (simp add: truthy_opt_def)
  from missing_prompt_and_image [OF parse tok ne np ni, of example_toFixed1 example_runPrediction]
  show ?thesis
    using parse tok np ni by simp
qed
text \<open>With a prompt the same call goes upstream.\<close>

lemma generate_with_prompt_goes_upstream:
  "snd (generateImageTool_handler example_toFixed1 example_runPrediction
          (Some (JObj [(''model'', JStr ''a/b''), (''input'', JObj [(''prompt'', JStr ''x'')])]))
          (Some example_context)) =
     [RunPrediction ''a/b'' [(''prompt'', JStr ''x'')] ''r8_token'']"
  by (simp add: generateImageTool_handler_def GenerateImageInputSchema_safeParse_def
      GenerateImageInputSchema_issues_def model_issues_def input_issues_def
      unrecognized_keys_issues_def model_format_ok_def example_context_def truthy_opt_def
      example_runPrediction_def)

text \<open>
  What the caller sees for the request id 0: the tool answers that the server has no
  Replicate token, and the upstream is not called; with the id 1 the same call goes
  upstream.
\<close>

lemma tool_call_with_id_zero:
  "fst (createWrappedHandler
          (\<lambda>args ctx. Inr (generateImageTool_handler example_toFixed1 example_runPrediction
                             (Some args) (Some ctx)))
          (JObj [(''model'', JStr ''a/b''), (''input'', JObj [(''prompt'', JStr ''x'')])])
          (Some (JNum 0)) 1001
          (post_create_context (Some (tools_call_body (JNum 0))) None (Some example_auth) 1000
             empty_registry)) =
     Inr (\<lparr>isError = Some True, content = [configuration_error_text]\<rparr>, [])"
  by (simp add: createWrappedHandler_def wrapped_enter_def generateImageTool_handler_def
      GenerateImageInputSchema_safeParse_def GenerateImageInputSchema_issues_def model_issues_def
      input_issues_def unrecognized_keys_issues_def model_format_ok_def)

lemma tool_call_with_id_one:
  "snd (projr (fst (createWrappedHandler
          (\<lambda>args ctx. Inr (generateImageTool_handler example_toFixed1 example_runPrediction
                             (Some args) (Some ctx)))
          (JObj [(''model'', JStr ''a/b''), (''input'', JObj [(''prompt'', JStr ''x'')])])
          (Some (JNum 1)) 1001
          (post_create_context (Some (tools_call_body (JNum 1))) None (Some example_auth) 1000
             empty_registry)))) =
     [RunPrediction ''a/b'' [(''prompt'', JStr ''x'')] ''r8_token'']"
  by (simp add: createWrappedHandler_def wrapped_enter_def generateImageTool_handler_def
      GenerateImageInputSchema_safeParse_def GenerateImageInputSchema_issues_def model_issues_def
      input_issues_def unrecognized_keys_issues_def model_format_ok_def tools_call_body_def
      post_create_context_def truthy_opt_def ContextRegistry_get_def ContextRegistry_create_def
      empty_registry_def example_auth_def example_runPrediction_def Let_def)

section \<open>Further properties\<close>

text \<open>
  Create, get, delete (spec, section 8, property 1): after \<open>create(R, ...)\<close>, \<open>get(R)\<close>
  returns the context created, whose token is new and not canceled; after \<open>delete(R)\<close>,
  \<open>get(R)\<close> finds nothing.
\<close>

theorem create_get_delete:
  "ContextRegistry_get R (snd (ContextRegistry_create R sid d now reg)) =
     Some (fst (ContextRegistry_create R sid d now reg)) \<and>
   \<not> token_isCanceled
       (tokens (snd (ContextRegistry_create R sid d now reg))
          (cancellationToken (fst (ContextRegistry_create R sid d now reg)))) \<and>
   ContextRegistry_get R
     (ContextRegistry_delete R (snd (ContextRegistry_create R sid d now reg))) = None"
  by (simp add: get_after_create created_token_fresh get_after_delete)

text \<open>
  The life of the context of a truthy request id (a number other than 0, a non-empty
  string): the POST route registers a context under the id, with the session id planned and
  the server's Replicate token; the wrapped tool handler runs the tool on exactly that
  context, the registry still holding it; and once the handler has returned or thrown, the
  registry holds no context for the id.
\<close>

theorem truthy_id_context_lifecycle:
  assumes "map_of kvs ''id'' = Some i" and "truthy i"
  shows "let reg1 = post_create_context (Some (JObj kvs)) sid auth now reg;
             ctx = \<lparr>sessionId = sid, cancellationToken = next_token reg, requestId = Some i,
                    timestamp = now,
                    replicateToken = (case auth of None \<Rightarrow> None | Some a \<Rightarrow> auth_replicateToken a)\<rparr>
         in ContextRegistry_get i reg1 = Some ctx \<and>
            wrapped_enter (Some i) later reg1 = (ctx, reg1) \<and>
            fst (createWrappedHandler handler args (Some i) later reg1) = handler args ctx \<and>
            ContextRegistry_get i (snd (createWrappedHandler handler args (Some i) later reg1)) = None"
proof -
  let ?reg1 = "post_create_context (Some (JObj kvs)) sid auth now reg"
  let ?ctx = "\<lparr>sessionId = sid, cancellationToken = next_token reg, requestId = Some i,
                timestamp = now,
                replicateToken = (case auth of None \<Rightarrow> None | Some a \<Rightarrow> auth_replicateToken a)\<rparr>"
  have registered: "ContextRegistry_get i ?reg1 = Some ?ctx"
    using assms by (rule post_create_context_truthy_id)
  have enter: "wrapped_enter (Some i) later ?reg1 = (?ctx, ?reg1)"
    using assms(2) registered by (rule wrapped_enter_registered)
  have outcome: "fst (createWrappedHandler handler args (Some i) later ?reg1) = handler args ?ctx"
    by (simp add: wrapped_handler_outcome enter)
  have gone: "ContextRegistry_get i (snd (createWrappedHandler handler args (Some i) later ?reg1)) = None"
    using assms(2) by (rule wrapped_handler_deletes)
  show ?thesis
    unfolding Let_def using registered enter outcome gone by simp
qed

theorem truthy_id_context_lifecycle_witness:
  "map_of [(''jsonrpc'', JStr ''2.0''), (''id'', JNum 1), (''method'', JStr ''tools/call'')] ''id'' =
     Some (JNum 1) \<and>
   truthy (JNum 1) \<and>
   ContextRegistry_get (JNum 1)
     (post_create_context
        (Some (JObj [(''jsonrpc'', JStr ''2.0''), (''id'', JNum 1), (''method'', JStr ''tools/call'')]))
        None (Some example_auth) 1000 empty_registry) =
     Some \<lparr>sessionId = None, cancellationToken = 0, requestId = Some (JNum 1), timestamp = 1000,
           replicateToken = Some ''r8_token''\<rparr> \<and>
   ContextRegistry_get (JNum 1)
     (snd (createWrappedHandler (\<lambda>a c. Inr (replicateToken c)) JNull (Some (JNum 1)) 1001
        (post_create_context
           (Some (JObj [(''jsonrpc'', JStr ''2.0''), (''id'', JNum 1), (''method'', JStr ''tools/call'')]))
           None (Some example_auth) 1000 empty_registry))) = None \<and>
   fst (createWrappedHandler (\<lambda>a c. Inr (replicateToken c)) JNull (Some (JNum 1)) 1001
        (post_create_context
           (Some (JObj [(''jsonrpc'', JStr ''2.0''), (''id'', JNum 1), (''method'', JStr ''tools/call'')]))
           None (Some example_auth) 1000 empty_registry)) = Inr (Some ''r8_token'')"
proof -
  let ?kvs = "[(''jsonrpc'', JStr ''2.0''), (''id'', JNum 1), (''method'', JStr ''tools/call'')]"
  have a: "map_of ?kvs ''id'' = Some (JNum 1)"
    by simp
  have b: "truthy (JNum 1)"
    by simp
  from truthy_id_context_lifecycle [OF a b, of None "Some example_auth" 1000 empty_registry 1001
      "\<lambda>a c. Inr (replicateToken c)" JNull]
  show ?thesis
    using a b by (simp add: Let_def empty_registry_def example_auth_def)
qed

end
